theory Spec2Isabelle
  imports Main
begin

section \<open>The entry point of arxiv-dl\<close>

text \<open>
  This theory embeds \<^verbatim>\<open>main\<close> of \<^verbatim>\<open>arxiv_dl/arxiv_dl.py\<close> and the record
  \<^verbatim>\<open>PaperData\<close> of \<^verbatim>\<open>arxiv_dl/models.py\<close>.

  \<^verbatim>\<open>main\<close> is an orchestrator: it inspects the target string itself and hands everything
  else to functions of \<^verbatim>\<open>helpers.py\<close>, \<^verbatim>\<open>scrapers.py\<close>, \<^verbatim>\<open>logger.py\<close> and \<^verbatim>\<open>pathlib\<close>.
  Those functions are parameters of the model (the record \<open>env\<close>): each takes its
  arguments and the state of the outside world (file system, network, process
  environment) and returns either an exception or a value, together with the new state of
  the world. Nothing is assumed about what they compute.

  The model keeps, next to the world, the list of collaborator invocations with their
  results and the list of calls made to the logger, so that a property such as
  ``the note writer is not invoked'' is a property of a value.
\<close>

subsection \<open>Python strings\<close>

text \<open>
  A Python \<^verbatim>\<open>str\<close> is a sequence of Unicode code points; a code point is a natural
  number here. \<open>lit\<close> turns an ASCII literal of the source into such a sequence.
\<close>

type_synonym pystr = "nat list"

definition lit :: "string \<Rightarrow> pystr" where
  "lit s = map of_char s"

text \<open>\<^verbatim>\<open>s.startswith(p)\<close> and, for a tuple of prefixes, \<^verbatim>\<open>s.startswith((p1, p2, ...))\<close>.\<close>

definition startswith1 :: "pystr \<Rightarrow> pystr \<Rightarrow> bool" where
  "startswith1 s p = (take (length p) s = p)"

definition startswith :: "pystr \<Rightarrow> pystr list \<Rightarrow> bool" where
  "startswith s ps = list_ex (startswith1 s) ps"

text \<open>\<^verbatim>\<open>sub in s\<close>: \<open>sub\<close> occurs in \<open>s\<close> as a contiguous block.\<close>

fun contains :: "pystr \<Rightarrow> pystr \<Rightarrow> bool" where
  "contains sub [] = (sub = [])"
| "contains sub (c # cs) = (startswith1 (c # cs) sub \<or> contains sub cs)"

text \<open>\<^verbatim>\<open>s.endswith(p)\<close>.\<close>

definition endswith :: "pystr \<Rightarrow> pystr \<Rightarrow> bool" where
  "endswith s p = (length p \<le> length s \<and> drop (length s - length p) s = p)"

text \<open>
  \<^verbatim>\<open>c.isdigit()\<close> for a single character \<open>c\<close>: true when the Unicode property
  \<^verbatim>\<open>Numeric_Type\<close> of \<open>c\<close> is \<^verbatim>\<open>Decimal\<close> or \<^verbatim>\<open>Digit\<close>. Below U+0100 these are
  the ten ASCII digits and the superscripts U+00B2, U+00B3 and U+00B9. The rest of the
  Unicode character database is a table of the Python runtime, not of this repository:
  it is the parameter \<open>ucd\<close>.
\<close>

definition isdigit :: "(nat \<Rightarrow> bool) \<Rightarrow> nat \<Rightarrow> bool" where
  "isdigit ucd c =
     (if c < 256 then (48 \<le> c \<and> c \<le> 57) \<or> c = 178 \<or> c = 179 \<or> c = 185
      else ucd c)"

text \<open>The characters \<^verbatim>\<open>0\<close> to \<^verbatim>\<open>9\<close>: the decimal digits of an arXiv identifier.\<close>

definition ascii_decimal_digit :: "nat \<Rightarrow> bool" where
  "ascii_decimal_digit c = (48 \<le> c \<and> c \<le> 57)"

subsection \<open>Values, exceptions and the paper record\<close>

text \<open>
  The parameter \<^verbatim>\<open>target\<close> is annotated \<^verbatim>\<open>str\<close>, and \<^verbatim>\<open>main\<close> itself checks
  \<^verbatim>\<open>isinstance(target, str)\<close>: the caller may pass something else. \<open>pyval\<close> has the
  values the check tells apart.
\<close>

datatype pyval = PyNone | PyStr pystr | PyInt int

fun truthy :: "pyval \<Rightarrow> bool" where
  "truthy PyNone = False"
| "truthy (PyStr s) = (s \<noteq> [])"
| "truthy (PyInt i) = (i \<noteq> 0)"

fun isinstance_str :: "pyval \<Rightarrow> bool" where
  "isinstance_str (PyStr s) = True"
| "isinstance_str v = False"

text \<open>
  Exceptions. Every one of them is an instance of \<^verbatim>\<open>Exception\<close>, the class the
  handlers of \<^verbatim>\<open>main\<close> catch. \<open>Error\<close> stands for whatever a collaborator raises, by
  its description. Signals that are no instances of \<^verbatim>\<open>Exception\<close>
  (\<^verbatim>\<open>KeyboardInterrupt\<close>, \<^verbatim>\<open>SystemExit\<close>) are outside the model.
\<close>

datatype exn =
    AssertionError
  | UnboundLocalError string
  | IndexError
  | AttributeError
  | Error string

text \<open>\<^verbatim>\<open>class PaperData(BaseModel)\<close>, field by field; \<^verbatim>\<open>None\<close> is \<open>None\<close>.\<close>

record PaperData =
  paper_id :: "pystr option"
  abs_url :: "pystr option"
  pdf_url :: "pystr option"
  src_website :: "pystr option"
  download_name :: "pystr option"
  title :: "pystr option"
  year :: "int option"
  paper_venue :: "pystr option"
  authors :: "pystr list"
  abstract :: "pystr option"
  comments :: "pystr option"
  official_code_urls :: "pystr list"
  pwc_page_url :: "pystr option"
  bibtex :: "pystr option"

text \<open>The record \<^verbatim>\<open>PaperData()\<close> builds: every field at its default.\<close>

definition PaperData_default :: PaperData where
  "PaperData_default =
     \<lparr>paper_id = None, abs_url = None, pdf_url = None, src_website = None,
      download_name = None, title = None, year = None, paper_venue = None,
      authors = [], abstract = None, comments = None, official_code_urls = [],
      pwc_page_url = None, bibtex = None\<rparr>"

text \<open>The truth value of an optional string: \<^verbatim>\<open>None\<close> and \<^verbatim>\<open>""\<close> are false.\<close>

fun truthy_str :: "pystr option \<Rightarrow> bool" where
  "truthy_str None = False"
| "truthy_str (Some s) = (s \<noteq> [])"

type_synonym path = string

subsection \<open>Collaborators, their invocations and the logger\<close>

text \<open>
  The environment also holds two facts of the Python runtime that \<^verbatim>\<open>main\<close> depends
  on: whether \<^verbatim>\<open>assert\<close> statements are executed, and the table of digits of the
  Unicode character database beyond U+00FF.

  \<^verbatim>\<open>paper_data\<close> is a mutable object: \<^verbatim>\<open>scrape_metadata\<close> fills it in place, and
  the downloader, the index updater and the note writer receive the same object. Each of
  them therefore returns the record as it left it.
\<close>

record 'w env =
  assertions_enabled :: bool
  unicode_digit :: "nat \<Rightarrow> bool"
  get_download_dest :: "'w \<Rightarrow> (exn + path) \<times> 'w"
  path_resolve :: "path \<Rightarrow> 'w \<Rightarrow> (exn + path) \<times> 'w"
  path_is_dir :: "path \<Rightarrow> 'w \<Rightarrow> (exn + bool) \<times> 'w"
  process_arxiv_target :: "pystr \<Rightarrow> 'w \<Rightarrow> (exn + PaperData) \<times> 'w"
  process_cvf_target :: "pystr \<Rightarrow> 'w \<Rightarrow> (exn + PaperData) \<times> 'w"
  process_nips_target :: "pystr \<Rightarrow> 'w \<Rightarrow> (exn + PaperData) \<times> 'w"
  process_openreview_target :: "pystr \<Rightarrow> 'w \<Rightarrow> (exn + PaperData) \<times> 'w"
  process_ecva_target :: "pystr \<Rightarrow> 'w \<Rightarrow> (exn + PaperData) \<times> 'w"
  scrape_metadata :: "PaperData \<Rightarrow> 'w \<Rightarrow> (exn + PaperData) \<times> 'w"
  download_pdf :: "PaperData \<Rightarrow> path \<Rightarrow> int \<Rightarrow> 'w \<Rightarrow> (exn + PaperData) \<times> 'w"
  add_to_paper_list :: "PaperData \<Rightarrow> path \<Rightarrow> 'w \<Rightarrow> (exn + PaperData) \<times> 'w"
  create_paper_note :: "PaperData \<Rightarrow> path \<Rightarrow> 'w \<Rightarrow> (exn + PaperData) \<times> 'w"

datatype call =
    GetDownloadDest
  | PathResolve path
  | PathIsDir path
  | ProcessArxivTarget pystr
  | ProcessCvfTarget pystr
  | ProcessNipsTarget pystr
  | ProcessOpenreviewTarget pystr
  | ProcessEcvaTarget pystr
  | ScrapeMetadata PaperData
  | DownloadPdf PaperData path int
  | AddToPaperList PaperData path
  | CreatePaperNote PaperData path

datatype retval = RPath path | RBool bool | RPaper PaperData

text \<open>
  What \<^verbatim>\<open>main\<close> asks of the logger. \<open>LogDebugJson p\<close> is
  \<^verbatim>\<open>logger.debug(json.dumps(p.dict(), indent=4))\<close>; the fields of a \<open>PaperData\<close> are
  strings, integers and lists of strings, which \<^verbatim>\<open>json.dumps\<close> always serialises.
\<close>

datatype logrec =
    LogException exn
  | LogError pystr
  | LogWarning pystr
  | SetLevelDebug
  | LogDebugJson PaperData

record 'w run_state =
  world :: 'w
  calls :: "(call \<times> (exn + retval)) list"
  logs :: "logrec list"

definition start :: "'w \<Rightarrow> 'w run_state" where
  "start w = \<lparr>world = w, calls = [], logs = []\<rparr>"

text \<open>Running one collaborator: the world moves on and the invocation is recorded.\<close>

definition invoke ::
  "call \<Rightarrow> ('a \<Rightarrow> retval) \<Rightarrow> ('w \<Rightarrow> (exn + 'a) \<times> 'w) \<Rightarrow> 'w run_state
     \<Rightarrow> (exn + 'a) \<times> 'w run_state" where
  "invoke c ret f s =
     (case f (world s) of
        (r, w') \<Rightarrow> (r, s\<lparr>world := w', calls := calls s @ [(c, map_sum id ret r)]\<rparr>))"

definition logger :: "logrec \<Rightarrow> 'w run_state \<Rightarrow> 'w run_state" where
  "logger l s = s\<lparr>logs := logs s @ [l]\<rparr>"

subsection \<open>The function main\<close>

record args =
  target :: pyval
  verbose :: bool
  download_dir :: "path option"
  n_threads :: int
  pdf_only :: bool

text \<open>How a call of \<^verbatim>\<open>main\<close> ends: it returns a boolean, or an exception leaves it.\<close>

datatype outcome = Returned bool | Raised exn

text \<open>
  The body of the first \<^verbatim>\<open>try\<close>:
  \<^verbatim>\<open>
    if download_dir is None:
        download_dir = get_download_dest()
    else:
        download_dir = Path(download_dir).resolve()
        assert download_dir.is_dir()
  \<close>
  Python compiles an \<^verbatim>\<open>assert\<close> statement only when \<^verbatim>\<open>__debug__\<close> is true, which it
  is unless the interpreter runs with \<^verbatim>\<open>-O\<close> or with \<^verbatim>\<open>PYTHONOPTIMIZE\<close> set. The
  field \<open>assertions_enabled\<close> of the environment is \<^verbatim>\<open>__debug__\<close>: where it is false
  the statement is absent, so \<^verbatim>\<open>is_dir\<close> is not even called.
\<close>

definition get_target_download_directory ::
  "'w env \<Rightarrow> path option \<Rightarrow> 'w run_state \<Rightarrow> (exn + path) \<times> 'w run_state" where
  "get_target_download_directory env dd s =
     (case dd of
        None \<Rightarrow> invoke GetDownloadDest RPath (get_download_dest env) s
      | Some d \<Rightarrow>
          (case invoke (PathResolve d) RPath (path_resolve env d) s of
             (Inl e, s1) \<Rightarrow> (Inl e, s1)
           | (Inr d', s1) \<Rightarrow>
               if assertions_enabled env then
                 (case invoke (PathIsDir d') RBool (path_is_dir env d') s1 of
                    (Inl e, s2) \<Rightarrow> (Inl e, s2)
                  | (Inr b, s2) \<Rightarrow>
                      if b then (Inr d', s2) else (Inl AssertionError, s2))
               else (Inr d', s1)))"

text \<open>
  \<^verbatim>\<open>
    try:
        if not pdf_only:
            create_paper_note(paper_data, download_dir=download_dir)
    except Exception as err:
        logger.exception(err)
        logger.warning("[Warn] Error while creating note")
        return False
    return True
  \<close>
\<close>

definition create_paper_notes ::
  "'w env \<Rightarrow> args \<Rightarrow> path \<Rightarrow> PaperData \<Rightarrow> 'w run_state \<Rightarrow> outcome \<times> 'w run_state" where
  "create_paper_notes env a dir p s =
     (if \<not> pdf_only a then
        (case invoke (CreatePaperNote p dir) RPaper (create_paper_note env p dir) s of
           (Inl err, s1) \<Rightarrow>
             (Returned False,
              logger (LogWarning (lit ''[Warn] Error while creating note''))
                (logger (LogException err) s1))
         | (Inr p1, s1) \<Rightarrow> (Returned True, s1))
      else (Returned True, s))"

text \<open>
  \<^verbatim>\<open>
    try:
        add_to_paper_list(paper_data, download_dir=download_dir)
    except Exception as err:
        logger.exception(err)
        logger.warning("[Warn] Error while updating paper list")
        return False
  \<close>
\<close>

definition update_paper_list ::
  "'w env \<Rightarrow> args \<Rightarrow> path \<Rightarrow> PaperData \<Rightarrow> 'w run_state \<Rightarrow> outcome \<times> 'w run_state" where
  "update_paper_list env a dir p s =
     (case invoke (AddToPaperList p dir) RPaper (add_to_paper_list env p dir) s of
        (Inl err, s1) \<Rightarrow>
          (Returned False,
           logger (LogWarning (lit ''[Warn] Error while updating paper list''))
             (logger (LogException err) s1))
      | (Inr p1, s1) \<Rightarrow> create_paper_notes env a dir p1 s1)"

text \<open>
  \<^verbatim>\<open>
    try:
        if paper_data.pdf_url:
            download_pdf(paper_data, download_dir=download_dir,
                         parallel_connections=n_threads)
        else:
            logger.warning("[Warn] No PDF URL found")
    except Exception as err:
        logger.exception(err)
        logger.error("[Abort] Error while downloading paper")
        return False
  \<close>
\<close>

definition download_paper ::
  "'w env \<Rightarrow> args \<Rightarrow> path \<Rightarrow> PaperData \<Rightarrow> 'w run_state \<Rightarrow> outcome \<times> 'w run_state" where
  "download_paper env a dir p s =
     (if truthy_str (pdf_url p) then
        (case invoke (DownloadPdf p dir (n_threads a)) RPaper
                (download_pdf env p dir (n_threads a)) s of
           (Inl err, s1) \<Rightarrow>
             (Returned False,
              logger (LogError (lit ''[Abort] Error while downloading paper''))
                (logger (LogException err) s1))
         | (Inr p1, s1) \<Rightarrow> update_paper_list env a dir p1 s1)
      else
        update_paper_list env a dir p
          (logger (LogWarning (lit ''[Warn] No PDF URL found'')) s))"

text \<open>
  \<^verbatim>\<open>
    scrape_metadata(paper_data)
    logger.setLevel(logging.DEBUG)
    if verbose:
        logger.debug(json.dumps(paper_data.dict(), indent=4))
  \<close>
  The call of \<^verbatim>\<open>scrape_metadata\<close> stands in no \<^verbatim>\<open>try\<close>.
\<close>

definition scrape ::
  "'w env \<Rightarrow> args \<Rightarrow> path \<Rightarrow> PaperData \<Rightarrow> 'w run_state \<Rightarrow> outcome \<times> 'w run_state" where
  "scrape env a dir p s =
     (case invoke (ScrapeMetadata p) RPaper (scrape_metadata env p) s of
        (Inl e, s1) \<Rightarrow> (Raised e, s1)
      | (Inr p1, s1) \<Rightarrow>
          download_paper env a dir p1
            (if verbose a then logger (LogDebugJson p1) (logger SetLevelDebug s1)
             else logger SetLevelDebug s1))"

text \<open>
  The assignment \<^verbatim>\<open>paper_data: PaperData = process_..._target(target)\<close>: the resolvers
  are called outside every \<^verbatim>\<open>try\<close>, so what they raise leaves \<^verbatim>\<open>main\<close>.
\<close>

definition resolved ::
  "'w env \<Rightarrow> args \<Rightarrow> path \<Rightarrow> (exn + PaperData) \<times> 'w run_state \<Rightarrow> outcome \<times> 'w run_state" where
  "resolved env a dir r =
     (case r of
        (Inl e, s1) \<Rightarrow> (Raised e, s1)
      | (Inr p, s1) \<Rightarrow> scrape env a dir p s1)"

text \<open>
  The chain \<^verbatim>\<open>if target[0].isdigit() or "arxiv.org" in target: ... elif ...\<close>; \<open>c\<close> is
  \<^verbatim>\<open>target[0]\<close>. The branch for a target that ends in \<^verbatim>\<open>.pdf\<close> is
  \<^verbatim>\<open>
    elif target.endswith(".pdf"):  # assume target is a PDF file
        # TODO: download the pdf file only
        ...
  \<close>
  It binds nothing, so the next statement, \<^verbatim>\<open>scrape_metadata(paper_data)\<close>, reads a
  local variable that has no value: Python raises \<^verbatim>\<open>UnboundLocalError\<close> before the
  scraper is called.
\<close>

definition identify_paper_source ::
  "'w env \<Rightarrow> args \<Rightarrow> path \<Rightarrow> pystr \<Rightarrow> nat \<Rightarrow> 'w run_state \<Rightarrow> outcome \<times> 'w run_state" where
  "identify_paper_source env a dir t c s =
     (if isdigit (unicode_digit env) c \<or> contains (lit ''arxiv.org'') t then
        resolved env a dir
          (invoke (ProcessArxivTarget t) RPaper (process_arxiv_target env t) s)
      else if contains (lit ''openaccess.thecvf.com'') t then
        resolved env a dir
          (invoke (ProcessCvfTarget t) RPaper (process_cvf_target env t) s)
      else if contains (lit ''papers.nips.cc/paper'') t then
        resolved env a dir
          (invoke (ProcessNipsTarget t) RPaper (process_nips_target env t) s)
      else if contains (lit ''openreview.net'') t then
        resolved env a dir
          (invoke (ProcessOpenreviewTarget t) RPaper (process_openreview_target env t) s)
      else if contains (lit ''ecva.net'') t then
        resolved env a dir
          (invoke (ProcessEcvaTarget t) RPaper (process_ecva_target env t) s)
      else if endswith t (lit ''.pdf'') then
        (Raised (UnboundLocalError ''paper_data''), s)
      else
        (Returned False, logger (LogError (lit ''[Abort] Unknown target: '' @ t)) s))"

text \<open>
  \<^verbatim>\<open>
    if not target or not isinstance(target, str):
        logger.error("[Abort] Target is not specified correctly")
        return False
    if (not target.startswith(("http://", "https://", "www."))
            and not target[0].isdigit()):
        logger.error(f"[Abort] Target should be a URL or an ArXiv ID. Unknown target: '{target}'")
        return False
  \<close>
  After the first test the target is a string with a first character; the two other
  branches of the case distinction below are what Python would do with an empty string
  (\<^verbatim>\<open>target[0]\<close>) and with a value that is no string (\<^verbatim>\<open>target.startswith\<close>), and
  are never taken.
\<close>

definition url_prefixes :: "pystr list" where
  "url_prefixes = [lit ''http://'', lit ''https://'', lit ''www.'']"

definition filter_invalid_target ::
  "'w env \<Rightarrow> args \<Rightarrow> path \<Rightarrow> 'w run_state \<Rightarrow> outcome \<times> 'w run_state" where
  "filter_invalid_target env a dir s =
     (if \<not> truthy (target a) \<or> \<not> isinstance_str (target a) then
        (Returned False,
         logger (LogError (lit ''[Abort] Target is not specified correctly'')) s)
      else
        (case target a of
           PyStr (c # cs) \<Rightarrow>
             if \<not> startswith (c # cs) url_prefixes \<and> \<not> isdigit (unicode_digit env) c then
               (Returned False,
                logger
                  (LogError
                     (lit ''[Abort] Target should be a URL or an ArXiv ID. Unknown target: ''
                        @ [39] @ (c # cs) @ [39])) s)
             else identify_paper_source env a dir (c # cs) c s
         | PyStr [] \<Rightarrow> (Raised IndexError, s)
         | _ \<Rightarrow> (Raised AttributeError, s)))"

text \<open>
  \<^verbatim>\<open>main\<close>: the first \<^verbatim>\<open>try\<close> with its handler
  \<^verbatim>\<open>
    except Exception as e:
        logger.exception(e)
        logger.error("[Abort] Environment Variable Error")
        return False
  \<close>
  and then the rest of the body. The parameters \<^verbatim>\<open>*args\<close> and \<^verbatim>\<open>**kwargs\<close> are
  never read.
\<close>

definition main :: "'w env \<Rightarrow> args \<Rightarrow> 'w \<Rightarrow> outcome \<times> 'w run_state" where
  "main env a w =
     (case get_target_download_directory env (download_dir a) (start w) of
        (Inl e, s1) \<Rightarrow>
          (Returned False,
           logger (LogError (lit ''[Abort] Environment Variable Error''))
             (logger (LogException e) s1))
      | (Inr dir, s1) \<Rightarrow> filter_invalid_target env a dir s1)"

subsection \<open>Reading a run\<close>

text \<open>
  The stage of \<^verbatim>\<open>main\<close> an invocation belongs to, in the order of the source:
  destination directory (0), venue resolver (1), metadata scrape (2), download (3),
  paper list (4), note (5).
\<close>

fun stage_no :: "call \<Rightarrow> nat" where
  "stage_no GetDownloadDest = 0"
| "stage_no (PathResolve d) = 0"
| "stage_no (PathIsDir d) = 0"
| "stage_no (ProcessArxivTarget t) = 1"
| "stage_no (ProcessCvfTarget t) = 1"
| "stage_no (ProcessNipsTarget t) = 1"
| "stage_no (ProcessOpenreviewTarget t) = 1"
| "stage_no (ProcessEcvaTarget t) = 1"
| "stage_no (ScrapeMetadata p) = 2"
| "stage_no (DownloadPdf p d n) = 3"
| "stage_no (AddToPaperList p d) = 4"
| "stage_no (CreatePaperNote p d) = 5"

text \<open>
  The condition under which the chain of \<open>identify_paper_source\<close> arrives at the
  branch \<^verbatim>\<open>elif target.endswith(".pdf")\<close>: every earlier test of the chain fails.
  \<open>rawpdf_branch\<close> adds the two filters of \<open>filter_invalid_target\<close>, so it describes
  the values of \<^verbatim>\<open>target\<close> with which \<^verbatim>\<open>main\<close> reaches that branch.
\<close>

definition pdf_branch :: "(nat \<Rightarrow> bool) \<Rightarrow> pystr \<Rightarrow> nat \<Rightarrow> bool" where
  "pdf_branch ucd t c =
     (\<not> (isdigit ucd c \<or> contains (lit ''arxiv.org'') t) \<and>
      \<not> contains (lit ''openaccess.thecvf.com'') t \<and>
      \<not> contains (lit ''papers.nips.cc/paper'') t \<and>
      \<not> contains (lit ''openreview.net'') t \<and>
      \<not> contains (lit ''ecva.net'') t \<and>
      endswith t (lit ''.pdf''))"

definition rawpdf_branch :: "(nat \<Rightarrow> bool) \<Rightarrow> pyval \<Rightarrow> bool" where
  "rawpdf_branch ucd v =
     (case v of
        PyStr (c # cs) \<Rightarrow>
          (startswith (c # cs) url_prefixes \<or> isdigit ucd c) \<and> pdf_branch ucd (c # cs) c
      | _ \<Rightarrow> False)"

text \<open>
  A run that ends before the scraper is called: only destination and resolver calls were
  made, and the outcome is \<^verbatim>\<open>False\<close>, the exception of a resolver, or the
  \<^verbatim>\<open>UnboundLocalError\<close> of the \<^verbatim>\<open>.pdf\<close> branch.
\<close>

definition early_exit :: "outcome \<Rightarrow> (call \<times> (exn + retval)) list \<Rightarrow> bool \<Rightarrow> bool" where
  "early_exit out cs rawpdf =
     ((\<forall>x\<in>set cs. stage_no (fst x) \<le> 1) \<and>
      (out = Returned False \<or>
       (\<exists>c e. stage_no c = 1 \<and> (c, Inl e) \<in> set cs \<and> out = Raised e) \<or>
       (rawpdf \<and> out = Raised (UnboundLocalError ''paper_data''))) \<and>
      (\<forall>c e. (c, Inl e) \<in> set cs \<longrightarrow>
         (if stage_no c = 1 then out = Raised e else out = Returned False)))"

text \<open>
  What ``failure details are in the logs'' means for a run. \<open>reported\<close>: when the
  outcome is \<^verbatim>\<open>False\<close>, the last thing asked of the logger is an error or a warning
  message. \<open>failures_logged\<close>: the exception of every failed invocation, those of the
  resolvers and of the scraper apart, was passed to \<^verbatim>\<open>logger.exception\<close>.
\<close>

fun is_report :: "logrec \<Rightarrow> bool" where
  "is_report (LogError m) = True"
| "is_report (LogWarning m) = True"
| "is_report l = False"

definition reported :: "outcome \<Rightarrow> logrec list \<Rightarrow> bool" where
  "reported out ls = (out = Returned False \<longrightarrow> ls \<noteq> [] \<and> is_report (last ls))"

definition failures_logged :: "(call \<times> (exn + retval)) list \<Rightarrow> logrec list \<Rightarrow> bool" where
  "failures_logged cs ls =
     (\<forall>c e. (c, Inl e) \<in> set cs \<and> stage_no c \<noteq> 1 \<and> stage_no c \<noteq> 2 \<longrightarrow>
        LogException e \<in> set ls)"

definition early_logged :: "outcome \<Rightarrow> (call \<times> (exn + retval)) list \<Rightarrow> logrec list \<Rightarrow> bool" where
  "early_logged out cs ls = (reported out ls \<and> failures_logged cs ls)"

text \<open>
  A run with the output of \<^verbatim>\<open>logger.debug\<close> removed: the only logging that depends on
  the parameter \<^verbatim>\<open>verbose\<close>.
\<close>

fun is_debug :: "logrec \<Rightarrow> bool" where
  "is_debug (LogDebugJson p) = True"
| "is_debug l = False"

definition quiet :: "'w run_state \<Rightarrow> 'w run_state" where
  "quiet s = s\<lparr>logs := filter (\<lambda>l. \<not> is_debug l) (logs s)\<rparr>"

subsection \<open>Collaborator stubs for concrete runs\<close>

text \<open>
  A world that is the list of files written so far, and collaborators that all succeed:
  the only existing directory is \<^verbatim>\<open>/tmp\<close>, a resolver returns a record that holds the
  target as its identifier, the scraper adds a PDF address. Assertions are enabled, and
  the stubs know no digit beyond U+00FF.
\<close>

definition stub_paper :: "pystr \<Rightarrow> pystr \<Rightarrow> PaperData" where
  "stub_paper site t = PaperData_default\<lparr>paper_id := Some t, src_website := Some site\<rparr>"

definition stub_env :: "string list env" where
  "stub_env =
     \<lparr>assertions_enabled = True,
      unicode_digit = (\<lambda>c. False),
      get_download_dest = (\<lambda>w. (Inr ''/home/user/Downloads/ArXiv_Papers'', w)),
      path_resolve = (\<lambda>d w. (Inr d, w)),
      path_is_dir = (\<lambda>d w. (Inr (d = ''/tmp''), w)),
      process_arxiv_target = (\<lambda>t w. (Inr (stub_paper (lit ''ArXiv'') t), w)),
      process_cvf_target = (\<lambda>t w. (Inr (stub_paper (lit ''CVF'') t), w)),
      process_nips_target = (\<lambda>t w. (Inr (stub_paper (lit ''NeurIPS'') t), w)),
      process_openreview_target = (\<lambda>t w. (Inr (stub_paper (lit ''OpenReview'') t), w)),
      process_ecva_target = (\<lambda>t w. (Inr (stub_paper (lit ''ECVA'') t), w)),
      scrape_metadata =
        (\<lambda>p w. (Inr (p\<lparr>pdf_url := Some (lit ''https://arxiv.org/pdf/x.pdf'')\<rparr>), w)),
      download_pdf = (\<lambda>p d n w. (Inr p, w @ [''paper.pdf''])),
      add_to_paper_list = (\<lambda>p d w. (Inr p, w @ [''000_Paper_List.json''])),
      create_paper_note = (\<lambda>p d w. (Inr p, w @ [''note.md'']))\<rparr>"

text \<open>The call \<^verbatim>\<open>main(t, download_dir="/tmp")\<close>, the other parameters at their defaults.\<close>

definition stub_args :: "pystr \<Rightarrow> args" where
  "stub_args t =
     \<lparr>target = PyStr t, verbose = False, download_dir = Some ''/tmp'', n_threads = 5,
      pdf_only = False\<rparr>"

text \<open>The paper record of the stubs once the scraper has run.\<close>

definition scraped_paper :: "pystr \<Rightarrow> PaperData" where
  "scraped_paper t =
     stub_paper (lit ''ArXiv'') t\<lparr>pdf_url := Some (lit ''https://arxiv.org/pdf/x.pdf'')\<rparr>"

text \<open>Environments in which one collaborator fails.\<close>

definition index_failing_env :: "string list env" where
  "index_failing_env =
     stub_env\<lparr>add_to_paper_list := (\<lambda>p d w. (Inl (Error ''disk full''), w))\<rparr>"

definition pdfless_env :: "string list env" where
  "pdfless_env = stub_env\<lparr>scrape_metadata := (\<lambda>p w. (Inr p, w))\<rparr>"

definition scrape_failing_env :: "string list env" where
  "scrape_failing_env =
     stub_env\<lparr>scrape_metadata := (\<lambda>p w. (Inl (Error ''connection refused''), w))\<rparr>"

definition resolver_failing_env :: "string list env" where
  "resolver_failing_env =
     stub_env\<lparr>process_arxiv_target := (\<lambda>t w. (Inl (Error ''invalid arXiv identifier''), w))\<rparr>"

definition download_failing_env :: "string list env" where
  "download_failing_env =
     stub_env\<lparr>download_pdf := (\<lambda>p d n w. (Inl (Error ''timed out''), w))\<rparr>"

text \<open>
  The stubs under \<^verbatim>\<open>python -O\<close>, and a call of \<^verbatim>\<open>main\<close> with a destination directory
  that does not exist.
\<close>

definition optimized_env :: "string list env" where
  "optimized_env = stub_env\<lparr>assertions_enabled := False\<rparr>"

definition nonexistent_dir_args :: args where
  "nonexistent_dir_args =
     stub_args (lit ''1506.01497'')\<lparr>download_dir := Some ''/nonexistent''\<rparr>"

text \<open>
  A target that begins with U+00B2, SUPERSCRIPT TWO. Unicode gives this character the
  numeric type \<^verbatim>\<open>Digit\<close>, not \<^verbatim>\<open>Decimal\<close> (its general category is \<^verbatim>\<open>No\<close>): it
  is no decimal digit, yet \<^verbatim>\<open>isdigit\<close> holds of it.
\<close>

definition superscript_target :: pystr where
  "superscript_target = 178 # lit ''506.01497''"

section \<open>Properties of a run\<close>

subsection \<open>Unfolding the model\<close>

lemmas run_defs = main_def get_target_download_directory_def filter_invalid_target_def
  identify_paper_source_def resolved_def scrape_def download_paper_def update_paper_list_def
  create_paper_notes_def invoke_def logger_def start_def

lemmas str_defs = lit_def startswith_def startswith1_def endswith_def isdigit_def
  url_prefixes_def

lemmas stub_defs = stub_env_def stub_args_def stub_paper_def scraped_paper_def
  PaperData_default_def

subsection \<open>The stages after the resolver\<close>

text \<open>
  Each stage function maps a state to an outcome and a state whose lists of invocations
  and of log records extend those of the state it started from. The lemmas of this
  subsection say what a stage adds, stage by stage from the last one backwards.
\<close>

lemma invoke_eq:
  "invoke c ret f s = (r, s') \<longleftrightarrow>
     (\<exists>w'. f (world s) = (r, w') \<and>
           s' = s\<lparr>world := w', calls := calls s @ [(c, map_sum id ret r)]\<rparr>)"
  by (auto simp: invoke_def split: prod.splits)

text \<open>The invocations a stage adds belong to that stage or a later one.\<close>

lemma note_stage_calls:
  "create_paper_notes env a dir p s = (out, s') \<Longrightarrow>
   \<exists>cs ls. calls s' = calls s @ cs \<and> logs s' = logs s @ ls \<and>
     (\<forall>x\<in>set cs. stage_no (fst x) = 5) \<and> (\<forall>m. LogError m \<notin> set ls)"
  by (auto simp: create_paper_notes_def invoke_eq logger_def split: if_splits prod.splits sum.splits)

lemma list_stage_calls:
  "update_paper_list env a dir p s = (out, s') \<Longrightarrow>
   \<exists>cs ls. calls s' = calls s @ cs \<and> logs s' = logs s @ ls \<and>
     (\<forall>x\<in>set cs. 4 \<le> stage_no (fst x)) \<and> (\<forall>m. LogError m \<notin> set ls) \<and>
     (\<exists>r. (AddToPaperList p dir, r) \<in> set cs)"
  by (auto simp: update_paper_list_def invoke_eq logger_def split: if_splits prod.splits sum.splits
      dest!: note_stage_calls) (force+)?

lemma download_stage_calls:
  "download_paper env a dir p s = (out, s') \<Longrightarrow>
   \<exists>cs ls. calls s' = calls s @ cs \<and> logs s' = logs s @ ls \<and>
     (\<forall>x\<in>set cs. 3 \<le> stage_no (fst x))"
  by (auto simp: download_paper_def invoke_eq logger_def split: if_splits prod.splits sum.splits
      dest!: list_stage_calls) (force+)?

lemma scrape_stage_calls:
  "scrape env a dir p s = (out, s') \<Longrightarrow>
   \<exists>cs ls. calls s' = calls s @ cs \<and> logs s' = logs s @ ls \<and>
     (\<forall>x\<in>set cs. 2 \<le> stage_no (fst x))"
  by (auto simp: scrape_def invoke_eq logger_def split: if_splits prod.splits sum.splits
      dest!: download_stage_calls) (force+)?

text \<open>A failed \<^verbatim>\<open>add_to_paper_list\<close> ends the run with \<^verbatim>\<open>False\<close>, before any note.\<close>

lemma list_failure_ends_run:
  "update_paper_list env a dir p s = (out, s') \<Longrightarrow>
   \<exists>cs ls. calls s' = calls s @ cs \<and> logs s' = logs s @ ls \<and>
     (\<forall>q d e. (AddToPaperList q d, Inl e) \<in> set cs \<longrightarrow>
        out = Returned False \<and> (\<forall>x\<in>set cs. stage_no (fst x) \<noteq> 5) \<and>
        LogException e \<in> set ls \<and>
        LogWarning (lit ''[Warn] Error while updating paper list'') \<in> set ls)"
  by (auto simp: update_paper_list_def invoke_eq logger_def split: if_splits prod.splits sum.splits
      dest!: note_stage_calls) (force+)?

lemma download_then_list_failure:
  "download_paper env a dir p s = (out, s') \<Longrightarrow>
   \<exists>cs ls. calls s' = calls s @ cs \<and> logs s' = logs s @ ls \<and>
     (\<forall>q d e. (AddToPaperList q d, Inl e) \<in> set cs \<longrightarrow>
        out = Returned False \<and> (\<forall>x\<in>set cs. stage_no (fst x) \<noteq> 5) \<and>
        LogException e \<in> set ls \<and>
        LogWarning (lit ''[Warn] Error while updating paper list'') \<in> set ls)"
  by (auto simp: download_paper_def invoke_eq logger_def split: if_splits prod.splits sum.splits
      dest!: list_failure_ends_run) (force+)?

lemma scrape_then_list_failure:
  "scrape env a dir p s = (out, s') \<Longrightarrow>
   \<exists>cs ls. calls s' = calls s @ cs \<and> logs s' = logs s @ ls \<and>
     (\<forall>q d e. (AddToPaperList q d, Inl e) \<in> set cs \<longrightarrow>
        out = Returned False \<and> (\<forall>x\<in>set cs. stage_no (fst x) \<noteq> 5) \<and>
        LogException e \<in> set ls \<and>
        LogWarning (lit ''[Warn] Error while updating paper list'') \<in> set ls)"
  by (auto simp: scrape_def invoke_eq logger_def split: if_splits prod.splits sum.splits
      dest!: download_then_list_failure) (force+)?


text \<open>
  The outcome follows the failed invocation, if there is one: the exception itself for
  the scraper, \<^verbatim>\<open>False\<close> for the later stages; \<^verbatim>\<open>True\<close> when nothing failed.
\<close>

lemma note_stage_outcome:
  "create_paper_notes env a dir p s = (out, s') \<Longrightarrow>
   \<exists>cs ls. calls s' = calls s @ cs \<and> logs s' = logs s @ ls \<and>
     (\<forall>x\<in>set cs. stage_no (fst x) = 5) \<and>
     (\<forall>c e. (c, Inl e) \<in> set cs \<longrightarrow> out = Returned False) \<and>
     ((\<forall>c e. (c, Inl e) \<notin> set cs) \<longrightarrow> out = Returned True)"
  by (auto simp: create_paper_notes_def invoke_eq logger_def split: if_splits prod.splits sum.splits)

lemma list_stage_outcome:
  "update_paper_list env a dir p s = (out, s') \<Longrightarrow>
   \<exists>cs ls. calls s' = calls s @ cs \<and> logs s' = logs s @ ls \<and>
     (\<forall>x\<in>set cs. 4 \<le> stage_no (fst x)) \<and>
     (\<forall>c e. (c, Inl e) \<in> set cs \<longrightarrow> out = Returned False) \<and>
     ((\<forall>c e. (c, Inl e) \<notin> set cs) \<longrightarrow> out = Returned True)"
  by (auto simp: update_paper_list_def invoke_eq logger_def split: if_splits prod.splits sum.splits
      dest!: note_stage_outcome) (force+)?

lemma download_stage_outcome:
  "download_paper env a dir p s = (out, s') \<Longrightarrow>
   \<exists>cs ls. calls s' = calls s @ cs \<and> logs s' = logs s @ ls \<and>
     (\<forall>x\<in>set cs. 3 \<le> stage_no (fst x)) \<and>
     (\<forall>c e. (c, Inl e) \<in> set cs \<longrightarrow> out = Returned False) \<and>
     ((\<forall>c e. (c, Inl e) \<notin> set cs) \<longrightarrow> out = Returned True)"
  by (auto simp: download_paper_def invoke_eq logger_def split: if_splits prod.splits sum.splits
      dest!: list_stage_outcome) (force+)?

lemma scrape_stage_outcome:
  "scrape env a dir p s = (out, s') \<Longrightarrow>
   \<exists>cs ls. calls s' = calls s @ cs \<and> logs s' = logs s @ ls \<and>
     (\<forall>x\<in>set cs. 2 \<le> stage_no (fst x)) \<and>
     (\<forall>c e. (c, Inl e) \<in> set cs \<longrightarrow>
        (if stage_no c = 2 then out = Raised e else out = Returned False)) \<and>
     ((\<forall>c e. (c, Inl e) \<notin> set cs) \<longrightarrow> out = Returned True)"
  by (auto simp: scrape_def invoke_eq logger_def split: if_splits prod.splits sum.splits
      dest!: download_stage_outcome) (force+)?

text \<open>A record without PDF address goes straight to the paper list.\<close>

lemma download_without_address:
  "download_paper env a dir p s = (out, s') \<Longrightarrow>
   \<exists>cs ls. calls s' = calls s @ cs \<and> logs s' = logs s @ ls \<and>
     (\<forall>x\<in>set cs. 3 \<le> stage_no (fst x)) \<and>
     (\<not> truthy_str (pdf_url p) \<longrightarrow>
        (\<forall>x\<in>set cs. 4 \<le> stage_no (fst x)) \<and>
        LogWarning (lit ''[Warn] No PDF URL found'') \<in> set ls \<and>
        (\<forall>m. LogError m \<notin> set ls) \<and>
        (\<exists>r. (AddToPaperList p dir, r) \<in> set cs))"
  by (auto simp: download_paper_def invoke_eq logger_def split: if_splits prod.splits sum.splits
      dest!: list_stage_calls) (force+)?

lemma scrape_without_address:
  "scrape env a dir p s = (out, s') \<Longrightarrow>
   \<exists>cs ls. calls s' = calls s @ cs \<and> logs s' = logs s @ ls \<and>
     (\<forall>q p'. (ScrapeMetadata q, Inr (RPaper p')) \<in> set cs \<and> \<not> truthy_str (pdf_url p') \<longrightarrow>
        (\<forall>x\<in>set cs. stage_no (fst x) \<noteq> 3) \<and>
        LogWarning (lit ''[Warn] No PDF URL found'') \<in> set ls \<and>
        (\<forall>m. LogError m \<notin> set ls) \<and>
        (\<exists>r. (AddToPaperList p' dir, r) \<in> set cs))"
  by (auto simp: scrape_def invoke_eq logger_def split: if_splits prod.splits sum.splits
      dest!: download_without_address) (force+)?

text \<open>
  What a stage logs: a \<^verbatim>\<open>False\<close> outcome comes right after an error or warning
  message, and the exception of a failed downloader, index updater or note writer is
  logged.
\<close>

lemma note_stage_report:
  "create_paper_notes env a dir p s = (out, s') \<Longrightarrow>
   \<exists>cs ls. calls s' = calls s @ cs \<and> logs s' = logs s @ ls \<and>
     reported out ls \<and> failures_logged cs ls"
  by (auto simp: create_paper_notes_def invoke_eq logger_def reported_def failures_logged_def
      split: if_splits prod.splits sum.splits)

lemma list_stage_report:
  "update_paper_list env a dir p s = (out, s') \<Longrightarrow>
   \<exists>cs ls. calls s' = calls s @ cs \<and> logs s' = logs s @ ls \<and>
     reported out ls \<and> failures_logged cs ls"
  by (auto simp: update_paper_list_def invoke_eq logger_def reported_def failures_logged_def
      split: if_splits prod.splits sum.splits dest!: note_stage_report) (force+)?

lemma download_stage_report:
  "download_paper env a dir p s = (out, s') \<Longrightarrow>
   \<exists>cs ls. calls s' = calls s @ cs \<and> logs s' = logs s @ ls \<and>
     reported out ls \<and> failures_logged cs ls"
  by (auto simp: download_paper_def invoke_eq logger_def reported_def failures_logged_def
      split: if_splits prod.splits sum.splits dest!: list_stage_report) (force+)?

lemma scrape_stage_report:
  "scrape env a dir p s = (out, s') \<Longrightarrow>
   \<exists>cs ls. calls s' = calls s @ cs \<and> logs s' = logs s @ ls \<and>
     reported out ls \<and> failures_logged cs ls"
  by (auto simp: scrape_def invoke_eq logger_def reported_def failures_logged_def
      split: if_splits prod.splits sum.splits dest!: download_stage_report) (force+)?

subsection \<open>The stages up to the resolver\<close>

text \<open>The destination-directory stage logs nothing and only makes calls of stage 0.\<close>

lemma map_sum_Inl_iff:
  "(Inl e = map_sum id f r) = (r = Inl e)" "(map_sum id f r = Inl e) = (r = Inl e)"
  by (cases r; auto)+

lemma dir_stage_run:
  "get_target_download_directory env dd (start w) = (r, s1) \<Longrightarrow>
   logs s1 = [] \<and> (\<forall>x\<in>set (calls s1). stage_no (fst x) = 0) \<and>
   (\<forall>d c e. r = Inr d \<longrightarrow> (c, Inl e) \<notin> set (calls s1)) \<and>
   (\<forall>d q. dd = Some d \<longrightarrow> (GetDownloadDest, q) \<notin> set (calls s1)) \<and>
   (\<forall>c e. (c, Inl e) \<in> set (calls s1) \<longrightarrow> r = Inl e)"
  by (auto simp: get_target_download_directory_def invoke_eq start_def map_sum_Inl_iff
      split: option.splits if_splits prod.splits sum.splits)

text \<open>The three ways a run ends early.\<close>

lemma early_exit_stage0:
  "\<forall>x\<in>set cs. stage_no (fst x) = 0 \<Longrightarrow> early_exit (Returned False) cs rp"
  by (force simp: early_exit_def)

lemma early_exit_resolver:
  "\<forall>x\<in>set cs. stage_no (fst x) = 0 \<and> (\<forall>e. snd x \<noteq> Inl e) \<Longrightarrow> stage_no rc = 1 \<Longrightarrow>
   early_exit (Raised e) (cs @ [(rc, Inl e)]) rp"
  by (force simp: early_exit_def)

lemma early_exit_rawpdf:
  "\<forall>x\<in>set cs. stage_no (fst x) = 0 \<and> (\<forall>e. snd x \<noteq> Inl e) \<Longrightarrow>
   early_exit (Raised (UnboundLocalError ''paper_data'')) cs True"
  by (force simp: early_exit_def)

text \<open>What has been logged when a run ends early.\<close>

lemma early_logged_resolver:
  "\<forall>x\<in>set cs. stage_no (fst x) = 0 \<and> (\<forall>e. snd x \<noteq> Inl e) \<Longrightarrow> stage_no rc = 1 \<Longrightarrow>
   early_logged (Raised e) (cs @ [(rc, Inl e)]) ls"
  by (force simp: early_logged_def reported_def failures_logged_def)

lemma early_logged_raised:
  "\<forall>x\<in>set cs. stage_no (fst x) = 0 \<and> (\<forall>e. snd x \<noteq> Inl e) \<Longrightarrow>
   early_logged (Raised e) cs ls"
  by (force simp: early_logged_def reported_def failures_logged_def)

lemma early_logged_abort:
  "\<forall>x\<in>set cs. stage_no (fst x) = 0 \<and> (\<forall>e. snd x \<noteq> Inl e) \<Longrightarrow>
   early_logged (Returned False) cs [LogError m]"
  by (force simp: early_logged_def reported_def failures_logged_def)

lemma early_logged_directory:
  "\<forall>c e'. (c, Inl e') \<in> set cs \<longrightarrow> e' = e \<Longrightarrow>
   early_logged (Returned False) cs [LogException e, LogError m]"
  by (force simp: early_logged_def reported_def failures_logged_def)

text \<open>
  A resolver either raises, which ends the run, or binds \<^verbatim>\<open>paper_data\<close>, with which
  the scraper is called.
\<close>

lemma resolved_run:
  assumes "resolved env a dir (invoke rc RPaper f s) = (out, s')"
    and "stage_no rc = 1" and "logs s = []"
    and "\<forall>x\<in>set (calls s). stage_no (fst x) = 0 \<and> (\<forall>e. snd x \<noteq> Inl e)"
  shows "(early_logged out (calls s') (logs s') \<and> early_exit out (calls s') rp) \<or>
     (\<exists>p s1. scrape env a dir p s1 = (out, s') \<and> logs s1 = [] \<and>
        calls s1 = calls s @ [(rc, Inr (RPaper p))])"
proof (cases "f (world s)")
  case (Pair r w')
  show ?thesis
  proof (cases r)
    case (Inl e)
    with Pair assms(1) have "out = Raised e" "logs s' = []"
      "calls s' = calls s @ [(rc, Inl e)]"
      using assms(3) by (auto simp: resolved_def invoke_def)
    then show ?thesis
      using early_exit_resolver [OF assms(4) assms(2)]
        early_logged_resolver [OF assms(4) assms(2)] by simp
  next
    case (Inr p)
    let ?s1 = "s\<lparr>world := w', calls := calls s @ [(rc, Inr (RPaper p))]\<rparr>"
    from Inr Pair assms(1) have "scrape env a dir p ?s1 = (out, s')"
      by (simp add: resolved_def invoke_def)
    moreover have "logs ?s1 = []" "calls ?s1 = calls s @ [(rc, Inr (RPaper p))]"
      using assms(3) by simp_all
    ultimately show ?thesis by blast
  qed
qed


text \<open>The chain of venue tests, branch by branch.\<close>

lemma identify_run:
  assumes run: "identify_paper_source env a dir t c s = (out, s')"
    and l: "logs s = []"
    and pre: "\<forall>x\<in>set (calls s). stage_no (fst x) = 0 \<and> (\<forall>e. snd x \<noteq> Inl e)"
  shows "(early_logged out (calls s') (logs s') \<and>
      early_exit out (calls s') (pdf_branch (unicode_digit env) t c)) \<or>
     (\<exists>p s1 rc. scrape env a dir p s1 = (out, s') \<and> logs s1 = [] \<and>
        calls s1 = calls s @ [(rc, Inr (RPaper p))] \<and> stage_no rc = 1)"
proof -
  let ?rp = "pdf_branch (unicode_digit env) t c"
  have pre0: "\<forall>x\<in>set (calls s). stage_no (fst x) = 0"
    using pre by simp
  have res: ?thesis
    if "resolved env a dir (invoke rc RPaper f s) = (out, s')" and "stage_no rc = 1"
    for rc f
    using resolved_run [OF that l pre, of ?rp] that(2) by blast
  show ?thesis
  proof (cases "isdigit (unicode_digit env) c \<or> contains (lit ''arxiv.org'') t")
    case True
    with run have "resolved env a dir
        (invoke (ProcessArxivTarget t) RPaper (process_arxiv_target env t) s) = (out, s')"
      by (simp add: identify_paper_source_def)
    then show ?thesis by (rule res) simp
  next
    case n1: False
    show ?thesis
    proof (cases "contains (lit ''openaccess.thecvf.com'') t")
      case True
      with run n1 have "resolved env a dir
          (invoke (ProcessCvfTarget t) RPaper (process_cvf_target env t) s) = (out, s')"
        by (simp add: identify_paper_source_def)
      then show ?thesis by (rule res) simp
    next
      case n2: False
      show ?thesis
      proof (cases "contains (lit ''papers.nips.cc/paper'') t")
        case True
        with run n1 n2 have "resolved env a dir
            (invoke (ProcessNipsTarget t) RPaper (process_nips_target env t) s) = (out, s')"
          by (simp add: identify_paper_source_def)
        then show ?thesis by (rule res) simp
      next
        case n3: False
        show ?thesis
        proof (cases "contains (lit ''openreview.net'') t")
          case True
          with run n1 n2 n3 have "resolved env a dir
              (invoke (ProcessOpenreviewTarget t) RPaper (process_openreview_target env t) s)
                = (out, s')"
            by (simp add: identify_paper_source_def)
          then show ?thesis by (rule res) simp
        next
          case n4: False
          show ?thesis
          proof (cases "contains (lit ''ecva.net'') t")
            case True
            with run n1 n2 n3 n4 have "resolved env a dir
                (invoke (ProcessEcvaTarget t) RPaper (process_ecva_target env t) s) = (out, s')"
              by (simp add: identify_paper_source_def)
            then show ?thesis by (rule res) simp
          next
            case n5: False
            show ?thesis
            proof (cases "endswith t (lit ''.pdf'')")
              case True
              with run n1 n2 n3 n4 n5
              have "out = Raised (UnboundLocalError ''paper_data'')" "s' = s"
                by (simp_all add: identify_paper_source_def)
              moreover have ?rp
                using n1 n2 n3 n4 n5 True by (simp add: pdf_branch_def)
              ultimately show ?thesis
                using early_exit_rawpdf [OF pre] early_logged_raised [OF pre] by simp
            next
              case False
              with run n1 n2 n3 n4 n5
              have "out = Returned False" "calls s' = calls s"
                "logs s' = [LogError (lit ''[Abort] Unknown target: '' @ t)]"
                using l by (auto simp: identify_paper_source_def logger_def)
              then show ?thesis
                using early_exit_stage0 [OF pre0] early_logged_abort [OF pre] by simp
            qed
          qed
        qed
      qed
    qed
  qed
qed

text \<open>A target that passes the first filter is a string with a first character.\<close>

lemma target_accepted:
  "\<not> (\<not> truthy v \<or> \<not> isinstance_str v) \<Longrightarrow> \<exists>c u. v = PyStr (c # u)"
  by (cases v) (auto simp: neq_Nil_conv)

lemma filter_run:
  assumes run: "filter_invalid_target env a dir s = (out, s')"
    and l: "logs s = []"
    and pre: "\<forall>x\<in>set (calls s). stage_no (fst x) = 0 \<and> (\<forall>e. snd x \<noteq> Inl e)"
  shows "(early_logged out (calls s') (logs s') \<and>
      early_exit out (calls s') (rawpdf_branch (unicode_digit env) (target a))) \<or>
     (\<exists>p s1 rc. scrape env a dir p s1 = (out, s') \<and> logs s1 = [] \<and>
        calls s1 = calls s @ [(rc, Inr (RPaper p))] \<and> stage_no rc = 1)"
proof -
  have pre0: "\<forall>x\<in>set (calls s). stage_no (fst x) = 0"
    using pre by simp
  show ?thesis
  proof (cases "\<not> truthy (target a) \<or> \<not> isinstance_str (target a)")
    case True
    with run l have "out = Returned False" "calls s' = calls s"
      "logs s' = [LogError (lit ''[Abort] Target is not specified correctly'')]"
      by (auto simp: filter_invalid_target_def logger_def)
    then show ?thesis
      using early_exit_stage0 [OF pre0] early_logged_abort [OF pre] by simp
  next
    case False
    then obtain c u where t: "target a = PyStr (c # u)"
      using target_accepted by blast
    show ?thesis
    proof (cases "\<not> startswith (c # u) url_prefixes \<and> \<not> isdigit (unicode_digit env) c")
      case True
      with run False t l have "out = Returned False" "calls s' = calls s"
        "\<exists>m. logs s' = [LogError m]"
        by (auto simp: filter_invalid_target_def logger_def)
      then show ?thesis
        using early_exit_stage0 [OF pre0] early_logged_abort [OF pre] by auto
    next
      case ok: False
      with run False t have "identify_paper_source env a dir (c # u) c s = (out, s')"
        by (auto simp: filter_invalid_target_def)
      note identify_run [OF this l pre]
      moreover have "rawpdf_branch (unicode_digit env) (target a)
          = pdf_branch (unicode_digit env) (c # u) c"
        using t ok by (simp add: rawpdf_branch_def)
      ultimately show ?thesis by simp
    qed
  qed
qed

lemma main_run:
  assumes run: "main env a w = (out, s')"
  shows "(early_logged out (calls s') (logs s') \<and>
      early_exit out (calls s') (rawpdf_branch (unicode_digit env) (target a))) \<or>
     (\<exists>dir p s1. scrape env a dir p s1 = (out, s') \<and> logs s1 = [] \<and>
        (\<forall>x\<in>set (calls s1). stage_no (fst x) \<le> 1 \<and> (\<forall>e. snd x \<noteq> Inl e)))"
proof (cases "get_target_download_directory env (download_dir a) (start w)")
  case (Pair r s1)
  note d = dir_stage_run [OF Pair]
  show ?thesis
  proof (cases r)
    case (Inl e)
    with Pair run d have "out = Returned False" "calls s' = calls s1"
      "logs s' = [LogException e, LogError (lit ''[Abort] Environment Variable Error'')]"
      by (auto simp: main_def logger_def)
    moreover have "\<forall>c e'. (c, Inl e') \<in> set (calls s1) \<longrightarrow> e' = e"
      using d Inl by auto
    ultimately show ?thesis
      using early_exit_stage0 [of "calls s1"] early_logged_directory [of "calls s1" e] d
      by simp
  next
    case (Inr dir)
    with Pair run have f: "filter_invalid_target env a dir s1 = (out, s')"
      by (simp add: main_def)
    have pre: "\<forall>x\<in>set (calls s1). stage_no (fst x) = 0 \<and> (\<forall>e. snd x \<noteq> Inl e)"
    proof (intro ballI conjI allI)
      fix x assume x: "x \<in> set (calls s1)"
      then show "stage_no (fst x) = 0" using d by blast
      fix e show "snd x \<noteq> Inl e"
      proof
        assume "snd x = Inl e"
        then have "(fst x, Inl e) \<in> set (calls s1)" using x by (metis prod.collapse)
        then show False using d Inr by blast
      qed
    qed
    have l: "logs s1 = []" using d by blast
    from filter_run [OF f l pre]
    show ?thesis
    proof
      assume "early_logged out (calls s') (logs s') \<and>
        early_exit out (calls s') (rawpdf_branch (unicode_digit env) (target a))"
      then show ?thesis by (rule disjI1)
    next
      assume "\<exists>p s2 rc. scrape env a dir p s2 = (out, s') \<and> logs s2 = [] \<and>
        calls s2 = calls s1 @ [(rc, Inr (RPaper p))] \<and> stage_no rc = 1"
      then obtain p s2 rc where *: "scrape env a dir p s2 = (out, s')" "logs s2 = []"
        "calls s2 = calls s1 @ [(rc, Inr (RPaper p))]" "stage_no rc = 1"
        by blast
      have "\<forall>x\<in>set (calls s2). stage_no (fst x) \<le> 1 \<and> (\<forall>e. snd x \<noteq> Inl e)"
        using pre *(3,4) by auto
      with *(1,2) show ?thesis by blast
    qed
  qed
qed

text \<open>Every run either ends early or hands a resolved record to the pipeline.\<close>

lemma main_cases:
  obtains (early) "early_exit (fst (main env a w)) (calls (snd (main env a w)))
        (rawpdf_branch (unicode_digit env) (target a))"
  | (pipeline) dir p s1 where
      "scrape env a dir p s1 = main env a w" "logs s1 = []"
      "\<forall>x\<in>set (calls s1). stage_no (fst x) \<le> 1 \<and> (\<forall>e. snd x \<noteq> Inl e)"
  using main_run [of env a w "fst (main env a w)" "snd (main env a w)"]
  by auto

text \<open>
  In every run a \<^verbatim>\<open>False\<close> outcome is reported, and the exceptions that were caught
  are logged.
\<close>

lemma main_logged:
  "reported (fst (main env a w)) (logs (snd (main env a w))) \<and>
   failures_logged (calls (snd (main env a w))) (logs (snd (main env a w)))"
proof -
  let ?out = "fst (main env a w)" and ?s = "snd (main env a w)"
  have run: "main env a w = (?out, ?s)" by simp
  from main_run [OF run] show ?thesis
  proof
    assume "early_logged ?out (calls ?s) (logs ?s) \<and>
      early_exit ?out (calls ?s) (rawpdf_branch (unicode_digit env) (target a))"
    then show ?thesis by (simp add: early_logged_def)
  next
    assume "\<exists>dir p s1. scrape env a dir p s1 = (?out, ?s) \<and> logs s1 = [] \<and>
        (\<forall>x\<in>set (calls s1). stage_no (fst x) \<le> 1 \<and> (\<forall>e. snd x \<noteq> Inl e))"
    then obtain dir p s1 where sc: "scrape env a dir p s1 = (?out, ?s)"
      and l: "logs s1 = []"
      and pre: "\<forall>x\<in>set (calls s1). stage_no (fst x) \<le> 1 \<and> (\<forall>e. snd x \<noteq> Inl e)"
      by blast
    from scrape_stage_report [OF sc] obtain cs ls where c: "calls ?s = calls s1 @ cs"
      and ls: "logs ?s = logs s1 @ ls"
      and r: "reported ?out ls" and f: "failures_logged cs ls"
      by blast
    have "failures_logged (calls s1 @ cs) ls"
      using f pre by (force simp: failures_logged_def)
    with r c ls l show ?thesis by simp
  qed
qed

subsection \<open>Runs that differ in verbosity\<close>

text \<open>
  Every stage commutes with \<open>quiet\<close>: the collaborators never see the log, and the only
  record \<open>quiet\<close> removes is the one written under \<^verbatim>\<open>if verbose\<close>.
\<close>

lemma quiet_sel [simp]:
  "world (quiet s) = world s" "calls (quiet s) = calls s"
  "logs (quiet s) = filter (\<lambda>l. \<not> is_debug l) (logs s)"
  by (simp_all add: quiet_def)

lemma quiet_invoke:
  "invoke c ret f (quiet s) = apsnd quiet (invoke c ret f s)"
  by (simp add: invoke_def quiet_def split: prod.splits)

lemma quiet_logger:
  "\<not> is_debug l \<Longrightarrow> logger l (quiet s) = quiet (logger l s)"
  by (simp add: logger_def quiet_def)

lemma quiet_logger_debug:
  "quiet (logger (LogDebugJson p) s) = quiet s"
  by (simp add: logger_def quiet_def)

lemma quiet_notes:
  "create_paper_notes env (a\<lparr>verbose := v\<rparr>) dir p (quiet s)
     = apsnd quiet (create_paper_notes env a dir p s)"
  by (simp add: create_paper_notes_def quiet_invoke quiet_logger split: prod.splits sum.splits)

lemma quiet_list:
  "update_paper_list env (a\<lparr>verbose := v\<rparr>) dir p (quiet s)
     = apsnd quiet (update_paper_list env a dir p s)"
  by (simp add: update_paper_list_def quiet_invoke quiet_logger quiet_notes
      split: prod.splits sum.splits)

lemma quiet_download:
  "download_paper env (a\<lparr>verbose := v\<rparr>) dir p (quiet s)
     = apsnd quiet (download_paper env a dir p s)"
  by (simp add: download_paper_def quiet_invoke quiet_logger quiet_list
      split: prod.splits sum.splits)

lemma quiet_scrape:
  "scrape env (a\<lparr>verbose := False\<rparr>) dir p (quiet s) = apsnd quiet (scrape env a dir p s)"
proof (cases "invoke (ScrapeMetadata p) RPaper (scrape_metadata env p) s")
  case (Pair r s1)
  then have q: "invoke (ScrapeMetadata p) RPaper (scrape_metadata env p) (quiet s)
      = (r, quiet s1)"
    by (simp add: quiet_invoke)
  show ?thesis
  proof (cases r)
    case (Inl e)
    with Pair q show ?thesis by (simp add: scrape_def)
  next
    case (Inr p1)
    have "quiet (logger (LogDebugJson p1) (logger SetLevelDebug s1))
        = logger SetLevelDebug (quiet s1)"
      and "quiet (logger SetLevelDebug s1) = logger SetLevelDebug (quiet s1)"
      by (simp_all add: logger_def quiet_def)
    with Pair q Inr show ?thesis
      by (simp add: scrape_def quiet_download [where v = False, symmetric])
  qed
qed

lemma quiet_resolved:
  "resolved env (a\<lparr>verbose := False\<rparr>) dir (apsnd quiet r) = apsnd quiet (resolved env a dir r)"
  by (cases r) (simp add: resolved_def quiet_scrape split: sum.splits)

lemma quiet_identify:
  "identify_paper_source env (a\<lparr>verbose := False\<rparr>) dir t c (quiet s)
     = apsnd quiet (identify_paper_source env a dir t c s)"
  by (simp add: identify_paper_source_def quiet_invoke quiet_resolved quiet_logger)

lemma quiet_filter:
  "filter_invalid_target env (a\<lparr>verbose := False\<rparr>) dir (quiet s)
     = apsnd quiet (filter_invalid_target env a dir s)"
  by (simp add: filter_invalid_target_def quiet_identify quiet_logger
      split: pyval.splits list.splits)

lemma quiet_start: "quiet (start w) = start w"
  by (simp add: quiet_def start_def)

lemma quiet_directory:
  "get_target_download_directory env dd (quiet s)
     = apsnd quiet (get_target_download_directory env dd s)"
  by (simp add: get_target_download_directory_def quiet_invoke
      split: option.splits prod.splits sum.splits)

lemma quiet_main:
  "main env (a\<lparr>verbose := False\<rparr>) w = apsnd quiet (main env a w)"
proof (cases "get_target_download_directory env (download_dir a) (start w)")
  case (Pair r s1)
  have "get_target_download_directory env (download_dir a) (quiet (start w))
      = (r, quiet s1)"
    using Pair by (simp add: quiet_directory)
  with Pair have q: "quiet s1 = s1"
    by (simp add: quiet_start)
  show ?thesis
  proof (cases r)
    case (Inl e)
    have "quiet (logger (LogError (lit ''[Abort] Environment Variable Error''))
        (logger (LogException e) s1))
      = logger (LogError (lit ''[Abort] Environment Variable Error''))
        (logger (LogException e) s1)"
      using q by (simp add: quiet_logger [symmetric])
    with Pair Inl show ?thesis by (simp add: main_def)
  next
    case (Inr dir)
    have "filter_invalid_target env (a\<lparr>verbose := False\<rparr>) dir s1
        = apsnd quiet (filter_invalid_target env a dir s1)"
      using quiet_filter [of env a dir s1] q by simp
    with Pair Inr show ?thesis by (simp add: main_def)
  qed
qed

section \<open>The claims of the specification\<close>

text \<open>
  In the statements below, \<open>fst (main env a w)\<close> is how the call ends,
  \<open>calls (snd (main env a w))\<close> the collaborator invocations in the order they were made,
  each with its result (\<open>Inl\<close> an exception, \<open>Inr\<close> a value), and
  \<open>logs (snd (main env a w))\<close> what was asked of the logger. The environment \<open>env\<close>,
  the arguments \<open>a\<close> and the initial world \<open>w\<close> are arbitrary.
\<close>

subsection \<open>C1: a target that ends in .pdf\<close>

text \<open>
  Every target that reaches the \<^verbatim>\<open>.pdf\<close> branch makes \<^verbatim>\<open>main\<close> raise
  \<^verbatim>\<open>UnboundLocalError\<close>, once the destination directory has been found: the branch
  assigns nothing to \<^verbatim>\<open>paper_data\<close>, and the next statement reads it.
\<close>

lemma rawpdf_branchD:
  assumes "rawpdf_branch ucd v"
  obtains c u where "v = PyStr (c # u)" "startswith (c # u) url_prefixes \<or> isdigit ucd c"
    "pdf_branch ucd (c # u) c"
  using assms unfolding rawpdf_branch_def
  by (auto split: pyval.splits list.splits)

lemma pdf_target_raises:
  assumes d: "get_target_download_directory env (download_dir a) (start w) = (Inr dir, s1)"
    and r: "rawpdf_branch (unicode_digit env) (target a)"
  shows "main env a w = (Raised (UnboundLocalError ''paper_data''), s1)"
proof -
  from r obtain c u where t: "target a = PyStr (c # u)"
    and f: "startswith (c # u) url_prefixes \<or> isdigit (unicode_digit env) c"
    and p: "pdf_branch (unicode_digit env) (c # u) c"
    by (rule rawpdf_branchD)
  from p have "identify_paper_source env a dir (c # u) c s1
      = (Raised (UnboundLocalError ''paper_data''), s1)"
    by (simp add: identify_paper_source_def pdf_branch_def)
  with t f have "filter_invalid_target env a dir s1
      = (Raised (UnboundLocalError ''paper_data''), s1)"
    by (auto simp: filter_invalid_target_def)
  with d show ?thesis by (simp add: main_def)
qed

text \<open>
  Claim C1 asks that \<^verbatim>\<open>main\<close> return \<^verbatim>\<open>False\<close> (or report the target as
  unsupported) for such a target and raise nothing. On \<^verbatim>\<open>https://example.com/foo.pdf\<close>
  the code does otherwise: the target reaches the branch and the exception leaves
  \<^verbatim>\<open>main\<close>, no collaborator beyond the path functions having been called.
\<close>

theorem pdf_target_raises_at_url:
  "rawpdf_branch (unicode_digit stub_env) (PyStr (lit ''https://example.com/foo.pdf'')) \<and>
   fst (main stub_env (stub_args (lit ''https://example.com/foo.pdf'')) [])
     = Raised (UnboundLocalError ''paper_data'') \<and>
   map fst (calls (snd (main stub_env (stub_args (lit ''https://example.com/foo.pdf'')) [])))
     = [PathResolve ''/tmp'', PathIsDir ''/tmp'']"
  by (simp add: run_defs str_defs stub_defs rawpdf_branch_def pdf_branch_def)

text \<open>
  The specification's own example \<^verbatim>\<open>foo.pdf\<close> never reaches the branch: it starts
  with neither an address prefix nor a digit, and the second filter returns \<^verbatim>\<open>False\<close>.
\<close>

lemma bare_pdf_name_rejected:
  "\<not> rawpdf_branch (unicode_digit stub_env) (PyStr (lit ''foo.pdf'')) \<and>
   fst (main stub_env (stub_args (lit ''foo.pdf'')) []) = Returned False"
  by (simp add: run_defs str_defs stub_defs rawpdf_branch_def pdf_branch_def)

subsection \<open>C2: targets that contain arxiv.org\<close>

text \<open>
  Claim C2 says that every string that contains \<^verbatim>\<open>arxiv.org\<close> is resolved by the arXiv
  resolver. The filter that precedes the venue tests rejects such a string when it starts
  with neither \<^verbatim>\<open>http://\<close>, \<^verbatim>\<open>https://\<close>, \<^verbatim>\<open>www.\<close> nor a digit:
  \<^verbatim>\<open>arxiv.org/abs/1506.01497\<close> is refused and no resolver is called.
\<close>

theorem arxiv_substring_rejected:
  "contains (lit ''arxiv.org'') (lit ''arxiv.org/abs/1506.01497'') \<and>
   fst (main stub_env (stub_args (lit ''arxiv.org/abs/1506.01497'')) []) = Returned False \<and>
   map fst (calls (snd (main stub_env (stub_args (lit ''arxiv.org/abs/1506.01497'')) [])))
     = [PathResolve ''/tmp'', PathIsDir ''/tmp'']"
  by (simp add: run_defs str_defs stub_defs)

text \<open>
  Claim C2 as amended. For every target string that contains \<^verbatim>\<open>arxiv.org\<close> and starts
  with \<^verbatim>\<open>http://\<close>, \<^verbatim>\<open>https://\<close>, \<^verbatim>\<open>www.\<close> or a digit, whether or not its first
  character is a digit: once the destination directory has been found, the resolvers
  invoked in the run are exactly one call of the arXiv resolver on the target.
\<close>

theorem arxiv_target_resolver:
  assumes d: "get_target_download_directory env (download_dir a) (start w) = (Inr dir, s1)"
    and t: "target a = PyStr (c # u)"
    and x: "contains (lit ''arxiv.org'') (c # u)"
    and f: "startswith (c # u) url_prefixes \<or> isdigit (unicode_digit env) c"
  shows "filter (\<lambda>k. stage_no k = 1) (map fst (calls (snd (main env a w))))
    = [ProcessArxivTarget (c # u)]"
proof -
  let ?t = "c # u"
  note ds = dir_stage_run [OF d]
  have pre: "filter (\<lambda>k. stage_no k = 1) (map fst (calls s1)) = []"
    using ds by (auto simp: filter_empty_conv)
  obtain r s2 where i: "invoke (ProcessArxivTarget ?t) RPaper (process_arxiv_target env ?t) s1
      = (r, s2)"
    by (cases "invoke (ProcessArxivTarget ?t) RPaper (process_arxiv_target env ?t) s1")
  then have c2: "calls s2 = calls s1 @ [(ProcessArxivTarget ?t, map_sum id RPaper r)]"
    by (auto simp: invoke_eq)
  have m: "main env a w = resolved env a dir (r, s2)"
    using d t x f i by (auto simp: main_def filter_invalid_target_def identify_paper_source_def)
  show ?thesis
  proof (cases r)
    case (Inl e)
    with m have "calls (snd (main env a w)) = calls s2"
      by (simp add: resolved_def)
    with c2 pre show ?thesis by simp
  next
    case (Inr p)
    with m have "scrape env a dir p s2 = (fst (main env a w), snd (main env a w))"
      by (simp add: resolved_def)
    from scrape_stage_calls [OF this] obtain cs where
      "calls (snd (main env a w)) = calls s2 @ cs" "\<forall>x\<in>set cs. 2 \<le> stage_no (fst x)"
      by blast
    moreover from this have "filter (\<lambda>k. stage_no k = 1) (map fst cs) = []"
      by (auto simp: filter_empty_conv)
    ultimately show ?thesis using c2 pre by simp
  qed
qed

theorem arxiv_target_resolver_witness:
  "contains (lit ''arxiv.org'') (lit ''https://arxiv.org/abs/1506.01497'') \<and>
   filter (\<lambda>k. stage_no k = 1)
     (map fst (calls (snd (main stub_env (stub_args (lit ''https://arxiv.org/abs/1506.01497'')) []))))
     = [ProcessArxivTarget (lit ''https://arxiv.org/abs/1506.01497'')]"
proof -
  let ?a = "stub_args (lit ''https://arxiv.org/abs/1506.01497'')"
  have d: "get_target_download_directory stub_env (download_dir ?a) (start [])
      = (Inr ''/tmp'', \<lparr>world = [], calls = [(PathResolve ''/tmp'', Inr (RPath ''/tmp'')),
          (PathIsDir ''/tmp'', Inr (RBool True))], logs = []\<rparr>)"
    by (simp add: run_defs stub_defs)
  have t: "target ?a = PyStr (104 # lit ''ttps://arxiv.org/abs/1506.01497'')"
    by (simp add: stub_defs lit_def)
  have x: "contains (lit ''arxiv.org'') (104 # lit ''ttps://arxiv.org/abs/1506.01497'')"
    by (simp add: str_defs)
  have f: "startswith (104 # lit ''ttps://arxiv.org/abs/1506.01497'') url_prefixes \<or>
      isdigit (unicode_digit stub_env) 104"
    by (simp add: str_defs)
  have e: "104 # lit ''ttps://arxiv.org/abs/1506.01497'' = lit ''https://arxiv.org/abs/1506.01497''"
    by (simp add: lit_def)
  from arxiv_target_resolver [OF d t x f] x show ?thesis
    unfolding e by simp
qed

subsection \<open>C3: targets of unrecognized format\<close>

text \<open>
  Claim C3 says that a non-empty string that starts with none of the three prefixes and
  whose first character is not a decimal digit is refused. The code tests the first
  character with \<^verbatim>\<open>isdigit\<close>, which also accepts digits that are not decimal: the
  target below, which begins with a superscript two, passes the filter, is handed to the
  arXiv resolver, and the run succeeds.
\<close>

theorem superscript_digit_accepted:
  "superscript_target \<noteq> [] \<and>
   \<not> startswith superscript_target url_prefixes \<and>
   \<not> ascii_decimal_digit (hd superscript_target) \<and>
   fst (main stub_env (stub_args superscript_target) []) = Returned True \<and>
   (ProcessArxivTarget superscript_target,
      Inr (RPaper (stub_paper (lit ''ArXiv'') superscript_target)))
     \<in> set (calls (snd (main stub_env (stub_args superscript_target) [])))"
  by (simp add: run_defs str_defs stub_defs superscript_target_def ascii_decimal_digit_def)

text \<open>
  Claim C3 as amended. For every non-empty target string that starts with none of
  \<^verbatim>\<open>http://\<close>, \<^verbatim>\<open>https://\<close>, \<^verbatim>\<open>www.\<close> and whose first character is not a digit
  in the sense of \<^verbatim>\<open>isdigit\<close>: \<^verbatim>\<open>main\<close> returns \<^verbatim>\<open>False\<close>, no invocation beyond
  the destination-directory stage is made (no resolver, scraper, downloader, index updater
  or note writer), and when the destination directory has been found the log is exactly
  the message that names the unknown target.
\<close>

theorem unrecognized_format_aborts:
  assumes t: "target a = PyStr (c # u)"
    and p: "\<not> startswith (c # u) url_prefixes"
    and g: "\<not> isdigit (unicode_digit env) c"
  shows "fst (main env a w) = Returned False \<and>
    (\<forall>x\<in>set (calls (snd (main env a w))). stage_no (fst x) = 0) \<and>
    (\<forall>dir s1. get_target_download_directory env (download_dir a) (start w) = (Inr dir, s1) \<longrightarrow>
       logs (snd (main env a w)) =
         [LogError (lit ''[Abort] Target should be a URL or an ArXiv ID. Unknown target: ''
            @ [39] @ (c # u) @ [39])])"
proof (cases "get_target_download_directory env (download_dir a) (start w)")
  case (Pair r s1)
  note ds = dir_stage_run [OF Pair]
  show ?thesis
  proof (cases r)
    case (Inl e)
    with Pair have "fst (main env a w) = Returned False"
      "calls (snd (main env a w)) = calls s1"
      by (simp_all add: main_def logger_def)
    with ds Pair Inl show ?thesis by simp
  next
    case (Inr dir)
    with Pair t p g have "main env a w = (Returned False,
        logger (LogError (lit ''[Abort] Target should be a URL or an ArXiv ID. Unknown target: ''
            @ [39] @ (c # u) @ [39])) s1)"
      by (simp add: main_def filter_invalid_target_def)
    with ds Pair Inr show ?thesis by (simp add: logger_def)
  qed
qed

text \<open>The specification's example \<^verbatim>\<open>foo.pdf\<close>.\<close>

theorem unrecognized_format_aborts_witness:
  "\<not> startswith (lit ''foo.pdf'') url_prefixes \<and>
   fst (main stub_env (stub_args (lit ''foo.pdf'')) []) = Returned False \<and>
   map fst (calls (snd (main stub_env (stub_args (lit ''foo.pdf'')) [])))
     = [PathResolve ''/tmp'', PathIsDir ''/tmp'']"
proof -
  have t: "target (stub_args (lit ''foo.pdf'')) = PyStr (102 # lit ''oo.pdf'')"
    by (simp add: stub_defs lit_def)
  have p: "\<not> startswith (102 # lit ''oo.pdf'') url_prefixes"
    by (simp add: str_defs)
  have g: "\<not> isdigit (unicode_digit stub_env) 102"
    by (simp add: str_defs)
  have c: "map fst (calls (snd (main stub_env (stub_args (lit ''foo.pdf'')) [])))
     = [PathResolve ''/tmp'', PathIsDir ''/tmp'']"
    by (simp add: run_defs str_defs stub_defs)
  have e: "102 # lit ''oo.pdf'' = lit ''foo.pdf''"
    by (simp add: lit_def)
  from unrecognized_format_aborts [OF t p g] p c show ?thesis
    unfolding e by simp
qed

subsection \<open>C4: no PDF address, no download\<close>

text \<open>
  Claim C4. Whenever the scraper has returned in a run and the record it leaves has no
  \<^verbatim>\<open>pdf_url\<close> (\<^verbatim>\<open>None\<close>, or the empty string, which Python treats alike), the
  downloader is not invoked in that run, the warning \<^verbatim>\<open>[Warn] No PDF URL found\<close> is
  logged, the abort message of the download stage is not, and the run goes on to the
  index update: \<^verbatim>\<open>add_to_paper_list\<close> is invoked with that record.
\<close>

theorem missing_pdf_url_skips_download:
  assumes "(ScrapeMetadata q, Inr (RPaper p)) \<in> set (calls (snd (main env a w)))"
    and "\<not> truthy_str (pdf_url p)"
  shows "(\<forall>p' d n r. (DownloadPdf p' d n, r) \<notin> set (calls (snd (main env a w)))) \<and>
    LogWarning (lit ''[Warn] No PDF URL found'') \<in> set (logs (snd (main env a w))) \<and>
    LogError (lit ''[Abort] Error while downloading paper'')
      \<notin> set (logs (snd (main env a w))) \<and>
    (\<exists>d r. (AddToPaperList p d, r) \<in> set (calls (snd (main env a w))))"
proof (cases rule: main_cases [of env a w])
  case early
  then have "\<forall>x\<in>set (calls (snd (main env a w))). stage_no (fst x) \<le> 1"
    by (simp add: early_exit_def)
  with assms(1) show ?thesis by force
next
  case (pipeline dir p0 s1)
  let ?s = "snd (main env a w)"
  have sc: "scrape env a dir p0 s1 = (fst (main env a w), ?s)"
    using pipeline(1) by simp
  from scrape_without_address [OF sc] obtain cs ls where c: "calls ?s = calls s1 @ cs"
    and ls: "logs ?s = logs s1 @ ls"
    and *: "\<forall>q p'. (ScrapeMetadata q, Inr (RPaper p')) \<in> set cs \<and> \<not> truthy_str (pdf_url p') \<longrightarrow>
        (\<forall>x\<in>set cs. stage_no (fst x) \<noteq> 3) \<and>
        LogWarning (lit ''[Warn] No PDF URL found'') \<in> set ls \<and>
        (\<forall>m. LogError m \<notin> set ls) \<and>
        (\<exists>r. (AddToPaperList p' dir, r) \<in> set cs)"
    by blast
  from assms(1) c pipeline(3) have "(ScrapeMetadata q, Inr (RPaper p)) \<in> set cs"
    by force
  with * assms(2) have n: "\<forall>x\<in>set cs. stage_no (fst x) \<noteq> 3"
    and lg: "LogWarning (lit ''[Warn] No PDF URL found'') \<in> set ls" "\<forall>m. LogError m \<notin> set ls"
    and ad: "\<exists>r. (AddToPaperList p dir, r) \<in> set cs"
    by blast+
  have "(DownloadPdf p' d n, r) \<notin> set (calls ?s)" for p' d n r
    using c pipeline(3) n by force
  moreover have "\<exists>d r. (AddToPaperList p d, r) \<in> set (calls ?s)"
    using ad c by auto
  ultimately show ?thesis
    using lg ls pipeline(2) by simp
qed

text \<open>The stubs with a scraper that finds no PDF address: the run even succeeds.\<close>

theorem missing_pdf_url_skips_download_witness:
  "(ScrapeMetadata (stub_paper (lit ''ArXiv'') (lit ''1506.01497'')),
      Inr (RPaper (stub_paper (lit ''ArXiv'') (lit ''1506.01497''))))
     \<in> set (calls (snd (main pdfless_env (stub_args (lit ''1506.01497'')) []))) \<and>
   \<not> truthy_str (pdf_url (stub_paper (lit ''ArXiv'') (lit ''1506.01497''))) \<and>
   (\<forall>p' d n r. (DownloadPdf p' d n, r)
     \<notin> set (calls (snd (main pdfless_env (stub_args (lit ''1506.01497'')) [])))) \<and>
   fst (main pdfless_env (stub_args (lit ''1506.01497'')) []) = Returned True"
proof -
  have h: "(ScrapeMetadata (stub_paper (lit ''ArXiv'') (lit ''1506.01497'')),
      Inr (RPaper (stub_paper (lit ''ArXiv'') (lit ''1506.01497''))))
     \<in> set (calls (snd (main pdfless_env (stub_args (lit ''1506.01497'')) [])))"
    by (simp add: run_defs str_defs stub_defs pdfless_env_def)
  have u: "\<not> truthy_str (pdf_url (stub_paper (lit ''ArXiv'') (lit ''1506.01497'')))"
    by (simp add: stub_defs)
  have t: "fst (main pdfless_env (stub_args (lit ''1506.01497'')) []) = Returned True"
    by (simp add: run_defs str_defs stub_defs pdfless_env_def)
  from missing_pdf_url_skips_download [OF h u] h u t show ?thesis by blast
qed

subsection \<open>C5: a failed index update ends the run before the note\<close>

text \<open>
  Claim C5. Whenever the index-append collaborator \<^verbatim>\<open>add_to_paper_list\<close> fails in a run,
  \<^verbatim>\<open>main\<close> returns \<^verbatim>\<open>False\<close> (it does not raise), the note writer
  \<^verbatim>\<open>create_paper_note\<close> is not invoked at all in that run, and the exception and the
  warning \<^verbatim>\<open>[Warn] Error while updating paper list\<close> are logged.
\<close>

theorem index_failure_skips_note:
  assumes "(AddToPaperList p dir, Inl e) \<in> set (calls (snd (main env a w)))"
  shows "fst (main env a w) = Returned False \<and>
    (\<forall>q d r. (CreatePaperNote q d, r) \<notin> set (calls (snd (main env a w)))) \<and>
    LogException e \<in> set (logs (snd (main env a w))) \<and>
    LogWarning (lit ''[Warn] Error while updating paper list'')
      \<in> set (logs (snd (main env a w)))"
proof -
  obtain out s' where run: "main env a w = (out, s')"
    by (cases "main env a w")
  with assms have f: "(AddToPaperList p dir, Inl e) \<in> set (calls s')"
    by simp
  from main_run [OF run] show ?thesis
  proof
    assume "early_logged out (calls s') (logs s') \<and>
      early_exit out (calls s') (rawpdf_branch (unicode_digit env) (target a))"
    then have "\<forall>x\<in>set (calls s'). stage_no (fst x) \<le> 1"
      by (simp add: early_exit_def)
    with f show ?thesis by force
  next
    assume "\<exists>dir p s1. scrape env a dir p s1 = (out, s') \<and> logs s1 = [] \<and>
        (\<forall>x\<in>set (calls s1). stage_no (fst x) \<le> 1 \<and> (\<forall>e. snd x \<noteq> Inl e))"
    then obtain dir' p' s1 where sc: "scrape env a dir' p' s1 = (out, s')"
      and l: "logs s1 = []"
      and pre: "\<forall>x\<in>set (calls s1). stage_no (fst x) \<le> 1 \<and> (\<forall>e. snd x \<noteq> Inl e)"
      by blast
    from scrape_then_list_failure [OF sc] obtain cs ls where c: "calls s' = calls s1 @ cs"
      and ls: "logs s' = logs s1 @ ls"
      and *: "\<forall>q d e. (AddToPaperList q d, Inl e) \<in> set cs \<longrightarrow>
        out = Returned False \<and> (\<forall>x\<in>set cs. stage_no (fst x) \<noteq> 5) \<and>
        LogException e \<in> set ls \<and>
        LogWarning (lit ''[Warn] Error while updating paper list'') \<in> set ls"
      by blast
    from f c pre have "(AddToPaperList p dir, Inl e) \<in> set cs"
      by force
    with * have o: "out = Returned False" and n: "\<forall>x\<in>set cs. stage_no (fst x) \<noteq> 5"
      and lg: "LogException e \<in> set ls"
        "LogWarning (lit ''[Warn] Error while updating paper list'') \<in> set ls"
      by blast+
    have "(CreatePaperNote q d, r) \<notin> set (calls s')" for q d r
      using c pre n by force
    with o lg ls l run show ?thesis by simp
  qed
qed

text \<open>The stubs with a failing index update, on the identifier of the source's own test.\<close>

theorem index_failure_skips_note_witness:
  "(AddToPaperList (scraped_paper (lit ''1506.01497'')) ''/tmp'', Inl (Error ''disk full''))
     \<in> set (calls (snd (main index_failing_env (stub_args (lit ''1506.01497'')) []))) \<and>
   fst (main index_failing_env (stub_args (lit ''1506.01497'')) []) = Returned False \<and>
   (\<forall>q d r. (CreatePaperNote q d, r)
     \<notin> set (calls (snd (main index_failing_env (stub_args (lit ''1506.01497'')) []))))"
proof -
  have h: "(AddToPaperList (scraped_paper (lit ''1506.01497'')) ''/tmp'',
      Inl (Error ''disk full''))
     \<in> set (calls (snd (main index_failing_env (stub_args (lit ''1506.01497'')) [])))"
    by (simp add: run_defs str_defs stub_defs index_failing_env_def)
  from index_failure_skips_note [OF h] h show ?thesis by blast
qed

subsection \<open>C6: when main returns a boolean\<close>

text \<open>
  Claim C6 says that \<^verbatim>\<open>main\<close> returns a boolean for every input, environment,
  scrape, download, index or note error. For a scrape error this is not so: the scraper
  is called outside every \<^verbatim>\<open>try\<close>, and what it raises leaves \<^verbatim>\<open>main\<close>. Here the
  scraper fails on a CVF address.
\<close>

theorem scrape_failure_raises:
  "fst (main scrape_failing_env
      (stub_args (lit ''https://openaccess.thecvf.com/content/paper.html'')) [])
     = Raised (Error ''connection refused'')"
  by (simp add: run_defs str_defs stub_defs scrape_failing_env_def)

text \<open>
  Claim C6 as amended. If in a run no venue resolver and not the scraper has raised, and
  the target is not one that reaches the unfinished \<^verbatim>\<open>.pdf\<close> branch, then \<^verbatim>\<open>main\<close>
  does not raise: it returns a boolean, whatever the target is, and whatever the
  configuration source, the path functions, the downloader, the index updater and the
  note writer do. The details of a failure are in the log only: the exception of every
  failed invocation has been passed to \<^verbatim>\<open>logger.exception\<close>, and when the result is
  \<^verbatim>\<open>False\<close> the last thing logged is an error or a warning message.
\<close>

theorem returns_boolean:
  assumes "\<forall>c e. (c, Inl e) \<in> set (calls (snd (main env a w))) \<longrightarrow>
      stage_no c \<noteq> 1 \<and> stage_no c \<noteq> 2"
    and "\<not> rawpdf_branch (unicode_digit env) (target a)"
  shows "(\<exists>b. fst (main env a w) = Returned b) \<and>
    (\<forall>c e. (c, Inl e) \<in> set (calls (snd (main env a w))) \<longrightarrow>
       LogException e \<in> set (logs (snd (main env a w)))) \<and>
    (fst (main env a w) = Returned False \<longrightarrow>
       logs (snd (main env a w)) \<noteq> [] \<and> is_report (last (logs (snd (main env a w)))))"
proof -
  have "\<exists>b. fst (main env a w) = Returned b"
  proof (cases rule: main_cases [of env a w])
    case early
    with assms show ?thesis
      unfolding early_exit_def by blast
  next
    case (pipeline dir p0 s1)
    let ?s = "snd (main env a w)"
    have sc: "scrape env a dir p0 s1 = (fst (main env a w), ?s)"
      using pipeline(1) by simp
    from scrape_stage_outcome [OF sc] obtain cs ls where c: "calls ?s = calls s1 @ cs"
      and *: "\<forall>c e. (c, Inl e) \<in> set cs \<longrightarrow>
          (if stage_no c = 2 then fst (main env a w) = Raised e
           else fst (main env a w) = Returned False)"
      and **: "(\<forall>c e. (c, Inl e) \<notin> set cs) \<longrightarrow> fst (main env a w) = Returned True"
      by blast
    show ?thesis
    proof (cases "\<exists>c e. (c, Inl e) \<in> set cs")
      case True
      then obtain c e where m: "(c, Inl e) \<in> set cs" by blast
      with c assms(1) have "stage_no c \<noteq> 2" by auto
      with * m show ?thesis by auto
    next
      case False
      with ** show ?thesis by blast
    qed
  qed
  moreover have "\<forall>c e. (c, Inl e) \<in> set (calls (snd (main env a w))) \<longrightarrow>
       LogException e \<in> set (logs (snd (main env a w)))"
    using main_logged [of env a w] assms(1) by (auto simp: failures_logged_def)
  moreover have "fst (main env a w) = Returned False \<longrightarrow>
       logs (snd (main env a w)) \<noteq> [] \<and> is_report (last (logs (snd (main env a w))))"
    using main_logged [of env a w] by (simp add: reported_def)
  ultimately show ?thesis by blast
qed

text \<open>
  The stubs with a failing downloader: a download error ends in \<^verbatim>\<open>False\<close>, with the
  exception and the abort message in the log.
\<close>

theorem returns_boolean_witness:
  "(DownloadPdf (scraped_paper (lit ''1506.01497'')) ''/tmp'' 5, Inl (Error ''timed out''))
     \<in> set (calls (snd (main download_failing_env (stub_args (lit ''1506.01497'')) []))) \<and>
   \<not> rawpdf_branch (unicode_digit download_failing_env)
       (target (stub_args (lit ''1506.01497''))) \<and>
   fst (main download_failing_env (stub_args (lit ''1506.01497'')) []) = Returned False \<and>
   LogException (Error ''timed out'')
     \<in> set (logs (snd (main download_failing_env (stub_args (lit ''1506.01497'')) []))) \<and>
   last (logs (snd (main download_failing_env (stub_args (lit ''1506.01497'')) [])))
     = LogError (lit ''[Abort] Error while downloading paper'')"
proof -
  let ?r = "main download_failing_env (stub_args (lit ''1506.01497'')) []"
  have c: "calls (snd ?r) =
      [(PathResolve ''/tmp'', Inr (RPath ''/tmp'')), (PathIsDir ''/tmp'', Inr (RBool True)),
       (ProcessArxivTarget (lit ''1506.01497''),
          Inr (RPaper (stub_paper (lit ''ArXiv'') (lit ''1506.01497'')))),
       (ScrapeMetadata (stub_paper (lit ''ArXiv'') (lit ''1506.01497'')),
          Inr (RPaper (scraped_paper (lit ''1506.01497'')))),
       (DownloadPdf (scraped_paper (lit ''1506.01497'')) ''/tmp'' 5, Inl (Error ''timed out''))]"
    by (simp add: run_defs str_defs stub_defs download_failing_env_def)
  have h: "\<forall>c e. (c, Inl e) \<in> set (calls (snd ?r)) \<longrightarrow> stage_no c \<noteq> 1 \<and> stage_no c \<noteq> 2"
    unfolding c by simp
  have r: "\<not> rawpdf_branch (unicode_digit download_failing_env)
      (target (stub_args (lit ''1506.01497'')))"
    by (simp add: rawpdf_branch_def pdf_branch_def str_defs stub_defs download_failing_env_def)
  have f: "fst ?r = Returned False"
    and l: "last (logs (snd ?r)) = LogError (lit ''[Abort] Error while downloading paper'')"
    by (simp_all add: run_defs str_defs stub_defs download_failing_env_def)
  have m: "(DownloadPdf (scraped_paper (lit ''1506.01497'')) ''/tmp'' 5,
      Inl (Error ''timed out'')) \<in> set (calls (snd ?r))"
    unfolding c by simp
  from returns_boolean [OF h r] m r f l show ?thesis by blast
qed

subsection \<open>C7: which failures leave main\<close>

text \<open>
  Claim C7 says that a failure of the scrape stage propagates, unlike the failure of
  every other stage. The first half holds; but the venue resolvers are called outside
  every \<^verbatim>\<open>try\<close> as well, so the scrape stage is not the only one. Here the arXiv
  resolver raises and \<^verbatim>\<open>main\<close> returns no boolean.
\<close>

theorem resolver_failure_propagates:
  "(ProcessArxivTarget (lit ''1506.01497''), Inl (Error ''invalid arXiv identifier''))
     \<in> set (calls (snd (main resolver_failing_env (stub_args (lit ''1506.01497'')) []))) \<and>
   fst (main resolver_failing_env (stub_args (lit ''1506.01497'')) [])
     = Raised (Error ''invalid arXiv identifier'') \<and>
   (\<forall>b. fst (main resolver_failing_env (stub_args (lit ''1506.01497'')) []) \<noteq> Returned b)"
  by (simp add: run_defs str_defs stub_defs resolver_failing_env_def)

text \<open>
  Claim C7 as amended. Whenever a collaborator invocation fails in a run with exception
  \<open>e\<close>: if it is the scraper (stage 2) or a venue resolver (stage 1), \<^verbatim>\<open>main\<close> ends
  with \<open>e\<close> raised to its caller; if it is the configuration source or a path function
  (stage 0), the downloader, the index updater or the note writer (stages 3 to 5),
  \<^verbatim>\<open>main\<close> returns \<^verbatim>\<open>False\<close>.
\<close>

theorem failure_outcomes:
  assumes "(c, Inl e) \<in> set (calls (snd (main env a w)))"
  shows "fst (main env a w) =
    (if stage_no c = 1 \<or> stage_no c = 2 then Raised e else Returned False)"
proof (cases rule: main_cases [of env a w])
  case early
  then have "\<forall>x\<in>set (calls (snd (main env a w))). stage_no (fst x) \<le> 1"
    and "\<forall>c e. (c, Inl e) \<in> set (calls (snd (main env a w))) \<longrightarrow>
         (if stage_no c = 1 then fst (main env a w) = Raised e
          else fst (main env a w) = Returned False)"
    by (simp_all add: early_exit_def)
  with assms show ?thesis by force
next
  case (pipeline dir p0 s1)
  let ?s = "snd (main env a w)"
  have sc: "scrape env a dir p0 s1 = (fst (main env a w), ?s)"
    using pipeline(1) by simp
  from scrape_stage_outcome [OF sc] obtain cs ls where c: "calls ?s = calls s1 @ cs"
    and k: "\<forall>x\<in>set cs. 2 \<le> stage_no (fst x)"
    and *: "\<forall>c e. (c, Inl e) \<in> set cs \<longrightarrow>
        (if stage_no c = 2 then fst (main env a w) = Raised e
         else fst (main env a w) = Returned False)"
    by blast
  from assms c pipeline(3) have m: "(c, Inl e) \<in> set cs"
    by force
  with k have "2 \<le> stage_no c" by force
  with * m show ?thesis by force
qed

text \<open>The stubs with a failing scraper.\<close>

theorem failure_outcomes_witness:
  "(ScrapeMetadata (stub_paper (lit ''ArXiv'') (lit ''1506.01497'')),
      Inl (Error ''connection refused''))
     \<in> set (calls (snd (main scrape_failing_env (stub_args (lit ''1506.01497'')) []))) \<and>
   fst (main scrape_failing_env (stub_args (lit ''1506.01497'')) [])
     = Raised (Error ''connection refused'')"
proof -
  have h: "(ScrapeMetadata (stub_paper (lit ''ArXiv'') (lit ''1506.01497'')),
      Inl (Error ''connection refused''))
     \<in> set (calls (snd (main scrape_failing_env (stub_args (lit ''1506.01497'')) [])))"
    by (simp add: run_defs str_defs stub_defs scrape_failing_env_def)
  from failure_outcomes [OF h] h show ?thesis by simp
qed

subsection \<open>C8: an empty or missing target\<close>

text \<open>
  Claim C8 says that for the empty target no collaborator at all is invoked, the
  configuration source included. The destination directory is resolved before the target
  is looked at, so with no explicit directory \<^verbatim>\<open>get_download_dest\<close> is called.
\<close>

theorem empty_target_reads_configuration:
  "fst (main stub_env (stub_args []\<lparr>download_dir := None\<rparr>) []) = Returned False \<and>
   calls (snd (main stub_env (stub_args []\<lparr>download_dir := None\<rparr>) []))
     = [(GetDownloadDest, Inr (RPath ''/home/user/Downloads/ArXiv_Papers''))]"
  by (simp add: run_defs str_defs stub_defs)

text \<open>
  Claim C8 as amended. For the empty string, and for a target that is \<^verbatim>\<open>None\<close> or not a
  string, \<^verbatim>\<open>main\<close> returns \<^verbatim>\<open>False\<close>, and the only invocations are those of the
  destination-directory stage: no resolver, scraper, downloader, index updater or note
  writer is invoked, and the configuration source is not invoked when an explicit
  directory is given.
\<close>

theorem invalid_target_aborts:
  assumes "\<not> truthy (target a) \<or> \<not> isinstance_str (target a)"
  shows "fst (main env a w) = Returned False \<and>
    (\<forall>x\<in>set (calls (snd (main env a w))). stage_no (fst x) = 0) \<and>
    (\<forall>d q. download_dir a = Some d \<longrightarrow>
       (GetDownloadDest, q) \<notin> set (calls (snd (main env a w))))"
proof (cases "get_target_download_directory env (download_dir a) (start w)")
  case (Pair r s1)
  note ds = dir_stage_run [OF Pair]
  have "fst (main env a w) = Returned False \<and> calls (snd (main env a w)) = calls s1"
  proof (cases r)
    case (Inl e)
    with Pair show ?thesis by (simp add: main_def logger_def)
  next
    case (Inr dir)
    with Pair assms show ?thesis
      by (auto simp: main_def filter_invalid_target_def logger_def)
  qed
  with ds show ?thesis by simp
qed

text \<open>The empty string and \<^verbatim>\<open>None\<close>, with the directory \<^verbatim>\<open>/tmp\<close> given.\<close>

theorem invalid_target_aborts_witness:
  "fst (main stub_env (stub_args []) []) = Returned False \<and>
   calls (snd (main stub_env (stub_args []) []))
     = [(PathResolve ''/tmp'', Inr (RPath ''/tmp'')), (PathIsDir ''/tmp'', Inr (RBool True))] \<and>
   fst (main stub_env (stub_args []\<lparr>target := PyNone\<rparr>) []) = Returned False"
proof -
  have h: "\<not> truthy (target (stub_args [])) \<or> \<not> isinstance_str (target (stub_args []))"
    and h': "\<not> truthy (target (stub_args []\<lparr>target := PyNone\<rparr>)) \<or>
      \<not> isinstance_str (target (stub_args []\<lparr>target := PyNone\<rparr>))"
    by (simp_all add: stub_defs)
  have c: "calls (snd (main stub_env (stub_args []) []))
     = [(PathResolve ''/tmp'', Inr (RPath ''/tmp'')), (PathIsDir ''/tmp'', Inr (RBool True))]"
    by (simp add: run_defs str_defs stub_defs)
  from invalid_target_aborts [OF h, of stub_env "[]"]
    invalid_target_aborts [OF h', of stub_env "[]"] c
  show ?thesis by blast
qed

subsection \<open>C9: an explicit directory that does not exist\<close>

text \<open>
  With assertions enabled, an explicit destination directory of which \<^verbatim>\<open>is_dir\<close> is
  false ends the run at once: \<^verbatim>\<open>main\<close> returns \<^verbatim>\<open>False\<close> after the two path queries
  and nothing else, the directory is checked and not created, and the failed assertion is
  caught and logged with the abort message.
\<close>

lemma missing_directory_aborts:
  assumes "assertions_enabled env"
    and "download_dir a = Some d"
    and "path_resolve env d w = (Inr d', w1)"
    and "path_is_dir env d' w1 = (Inr False, w2)"
  shows "main env a w =
    (Returned False,
     \<lparr>world = w2,
      calls = [(PathResolve d, Inr (RPath d')), (PathIsDir d', Inr (RBool False))],
      logs = [LogException AssertionError,
              LogError (lit ''[Abort] Environment Variable Error'')]\<rparr>)"
  using assms
  by (simp add: main_def get_target_download_directory_def invoke_def logger_def start_def)

lemma missing_directory_aborts_stub:
  "main stub_env nonexistent_dir_args [] =
    (Returned False,
     \<lparr>world = [],
      calls = [(PathResolve ''/nonexistent'', Inr (RPath ''/nonexistent'')),
               (PathIsDir ''/nonexistent'', Inr (RBool False))],
      logs = [LogException AssertionError,
              LogError (lit ''[Abort] Environment Variable Error'')]\<rparr>)"
  by (rule missing_directory_aborts) (simp_all add: stub_defs nonexistent_dir_args_def)

text \<open>
  The check is an \<^verbatim>\<open>assert\<close> statement and nothing else. Where assertions are not
  executed the resolved path is taken as it is, whatever \<^verbatim>\<open>is_dir\<close> would say, and
  the run goes on with the target.
\<close>

lemma unchecked_directory:
  assumes "\<not> assertions_enabled env"
    and "download_dir a = Some d"
    and "path_resolve env d w = (Inr d', w1)"
  shows "main env a w =
    filter_invalid_target env a d'
      \<lparr>world = w1, calls = [(PathResolve d, Inr (RPath d'))], logs = []\<rparr>"
  using assms
  by (simp add: main_def get_target_download_directory_def invoke_def start_def)

text \<open>
  Claim C9 says that every run with an explicit destination directory that does not exist
  returns \<^verbatim>\<open>False\<close> before any network call, the existence check coming first. Under
  \<^verbatim>\<open>python -O\<close> the code does otherwise: on the directory \<^verbatim>\<open>/nonexistent\<close>, of which
  \<^verbatim>\<open>is_dir\<close> is false, no check is made, the resolver, the scraper and the downloader
  are called with that directory, and with the stubs the run even returns \<^verbatim>\<open>True\<close>.
\<close>

theorem unchecked_directory_runs_on:
  "path_is_dir optimized_env ''/nonexistent'' [] = (Inr False, []) \<and>
   fst (main optimized_env nonexistent_dir_args []) = Returned True \<and>
   map fst (calls (snd (main optimized_env nonexistent_dir_args []))) =
     [PathResolve ''/nonexistent'',
      ProcessArxivTarget (lit ''1506.01497''),
      ScrapeMetadata (stub_paper (lit ''ArXiv'') (lit ''1506.01497'')),
      DownloadPdf (scraped_paper (lit ''1506.01497'')) ''/nonexistent'' 5,
      AddToPaperList (scraped_paper (lit ''1506.01497'')) ''/nonexistent'',
      CreatePaperNote (scraped_paper (lit ''1506.01497'')) ''/nonexistent'']"
  by (simp add: run_defs str_defs stub_defs optimized_env_def nonexistent_dir_args_def)

subsection \<open>C10: the parameter verbose only changes the log\<close>

text \<open>
  Claim C10. Two runs of \<^verbatim>\<open>main\<close> in the same environment and world whose arguments
  differ only in \<^verbatim>\<open>verbose\<close> end the same way, make the same collaborator invocations
  with the same arguments (so the same \<^verbatim>\<open>PaperData\<close>) and results, and leave the same
  world; their logs are equal once the \<^verbatim>\<open>logger.debug\<close> records are left out.
\<close>

theorem verbose_only_logs:
  "fst (main env (a\<lparr>verbose := v\<rparr>) w) = fst (main env a w) \<and>
   world (snd (main env (a\<lparr>verbose := v\<rparr>) w)) = world (snd (main env a w)) \<and>
   calls (snd (main env (a\<lparr>verbose := v\<rparr>) w)) = calls (snd (main env a w)) \<and>
   filter (\<lambda>l. \<not> is_debug l) (logs (snd (main env (a\<lparr>verbose := v\<rparr>) w)))
     = filter (\<lambda>l. \<not> is_debug l) (logs (snd (main env a w)))"
proof -
  have "apsnd quiet (main env (a\<lparr>verbose := v\<rparr>) w) = apsnd quiet (main env a w)"
    using quiet_main [of env "a\<lparr>verbose := v\<rparr>" w] quiet_main [of env a w] by simp
  then have "fst (main env (a\<lparr>verbose := v\<rparr>) w) = fst (main env a w)"
    and "quiet (snd (main env (a\<lparr>verbose := v\<rparr>) w)) = quiet (snd (main env a w))"
    by (metis fst_apsnd, metis snd_apsnd)
  then show ?thesis
    by (metis quiet_sel)
qed

text \<open>The source's own test call, with and without \<^verbatim>\<open>verbose=True\<close>.\<close>

theorem verbose_only_logs_witness:
  "fst (main stub_env (stub_args (lit ''1506.01497'')\<lparr>verbose := True\<rparr>) []) = Returned True \<and>
   fst (main stub_env (stub_args (lit ''1506.01497'')) []) = Returned True \<and>
   LogDebugJson (scraped_paper (lit ''1506.01497''))
     \<in> set (logs (snd (main stub_env (stub_args (lit ''1506.01497'')\<lparr>verbose := True\<rparr>) []))) \<and>
   calls (snd (main stub_env (stub_args (lit ''1506.01497'')\<lparr>verbose := True\<rparr>) []))
     = calls (snd (main stub_env (stub_args (lit ''1506.01497'')) []))"
proof -
  have "fst (main stub_env (stub_args (lit ''1506.01497'')) []) = Returned True"
    and "LogDebugJson (scraped_paper (lit ''1506.01497''))
     \<in> set (logs (snd (main stub_env (stub_args (lit ''1506.01497'')\<lparr>verbose := True\<rparr>) [])))"
    by (simp_all add: run_defs str_defs stub_defs)
  with verbose_only_logs [where env = stub_env and a = "stub_args (lit ''1506.01497'')" and v = True and w = "[]"]
  show ?thesis by simp
qed

end
